theory Spec2Isabelle
  imports Complex_Main
begin

section \<open>The data layer: tables and triggers\<close>

text \<open>
  The SQL scripts of the repository declare two row-level triggers:
  \<^verbatim>\<open>update_stock\<close> (\<^verbatim>\<open>AFTER INSERT ON orders\<close>) and
  \<^verbatim>\<open>enforce_positive_values\<close> (\<^verbatim>\<open>BEFORE INSERT OR UPDATE ON retail\<close>).
  A table is the list of its rows, a column that may hold \<^verbatim>\<open>NULL\<close> is an option, and a
  statement is a function from the database to either the error that aborts it or the
  database it leaves behind.
\<close>

subsection \<open>Three-valued comparisons\<close>

text \<open>
  A comparison with \<^verbatim>\<open>NULL\<close> is \<^verbatim>\<open>NULL\<close>; \<^verbatim>\<open>IF\<close> and \<^verbatim>\<open>WHERE\<close> take a
  \<^verbatim>\<open>NULL\<close> condition as not satisfied.
\<close>

definition sql_lt :: "'a::linorder option \<Rightarrow> 'a option \<Rightarrow> bool option" where
  "sql_lt a b = (case a of None \<Rightarrow> None | Some x \<Rightarrow> (case b of None \<Rightarrow> None | Some y \<Rightarrow> Some (x < y)))"

definition sql_eq :: "'a option \<Rightarrow> 'a option \<Rightarrow> bool option" where
  "sql_eq a b = (case a of None \<Rightarrow> None | Some x \<Rightarrow> (case b of None \<Rightarrow> None | Some y \<Rightarrow> Some (x = y)))"

definition sql_true :: "bool option \<Rightarrow> bool" where
  "sql_true c = (c = Some True)"

subsection \<open>Rows and tables\<close>

text \<open>
  Only the columns that the triggers and the handlers read or write are fields; the
  comparison \<^verbatim>\<open>stockcode = NEW.product_id\<close> needs both columns to have one type, the
  text of a stock code. The product row has the columns the product API reads.
\<close>

record retail_row =
  retail_id :: int
  stockcode :: "string option"
  quantity :: "int option"
  unit_price :: "rat option"

record orders_row =
  product_id :: "string option"
  order_quantity :: "int option"

record product =
  p_product_id :: int
  stock_code :: string
  description :: string
  category_id :: "int option"
  p_unit_price :: "rat option"
  stock_quantity :: "int option"
  is_active :: "bool option"

record order_item =
  oi_id :: int
  oi_product_id :: int

record inventory_movement =
  im_id :: int
  im_product_id :: int

record database =
  retail :: "retail_row list"
  orders :: "orders_row list"
  products :: "product list"
  order_items :: "order_item list"
  inventory_movements :: "inventory_movement list"

text \<open>
  A statement fails with the exception a trigger raises, or with the error of an
  expression it evaluates: \<^verbatim>\<open>integer out of range\<close> has the SQLSTATE 22003.
\<close>

datatype pg_error = Raise_exception string | Numeric_value_out_of_range

text \<open>
  A failed statement changes nothing: \<open>run_statement\<close> gives the error, if any, and the
  database that is visible afterwards.
\<close>

definition run_statement :: "('db \<Rightarrow> pg_error + 'db) \<Rightarrow> 'db \<Rightarrow> pg_error option \<times> 'db" where
  "run_statement stmt db = (case stmt db of Inl e \<Rightarrow> (Some e, db) | Inr db' \<Rightarrow> (None, db'))"

subsection \<open>Integer arithmetic\<close>

text \<open>
  Modelled from the spec: the \<^verbatim>\<open>CREATE TABLE\<close> statements of \<^verbatim>\<open>retail\<close> and
  \<^verbatim>\<open>orders\<close> are not among the sources, so the type of the two \<^verbatim>\<open>quantity\<close> columns
  is taken from the data model of the specification, which has a stock quantity as an
  integer: the type \<^verbatim>\<open>integer\<close> of PostgreSQL, four bytes wide. A column of that type holds the
  values from \<open>- 2 ^ 31\<close> to \<open>2 ^ 31 - 1\<close>. The difference of two such values is
  \<^verbatim>\<open>NULL\<close> when one of them is, and an error when it is not in that range: the server
  does not wrap around.
\<close>

definition int4_range :: "int \<Rightarrow> bool" where
  "int4_range v = (- (2 ^ 31) \<le> v \<and> v < 2 ^ 31)"

definition sql_minus :: "int option \<Rightarrow> int option \<Rightarrow> pg_error + int option" where
  "sql_minus a b =
     (case a of
        None \<Rightarrow> Inr None
      | Some x \<Rightarrow>
          (case b of
             None \<Rightarrow> Inr None
           | Some y \<Rightarrow> if int4_range (x - y) then Inr (Some (x - y)) else Inl Numeric_value_out_of_range))"

subsection \<open>The trigger \<^verbatim>\<open>enforce_positive_values\<close>\<close>

definition enforce_positive_values :: "retail_row \<Rightarrow> pg_error + retail_row" where
  "enforce_positive_values new =
     (if sql_true (sql_lt (quantity new) (Some 0))
        then Inl (Raise_exception ''Quantity cannot be negative'')
      else if sql_true (sql_lt (unit_price new) (Some 0))
        then Inl (Raise_exception ''Unit price cannot be negative'')
      else Inr new)"

text \<open>
  \<^verbatim>\<open>INSERT INTO retail\<close>: the trigger runs before each row is stored, and its exception
  aborts the statement, rows already handled included.
\<close>

fun insert_retail_rows :: "retail_row list \<Rightarrow> retail_row list \<Rightarrow> pg_error + retail_row list" where
  "insert_retail_rows [] tbl = Inr tbl"
| "insert_retail_rows (new # news) tbl =
     (case enforce_positive_values new of
        Inl e \<Rightarrow> Inl e
      | Inr r \<Rightarrow> insert_retail_rows news (tbl @ [r]))"

definition insert_retail :: "retail_row list \<Rightarrow> database \<Rightarrow> pg_error + database" where
  "insert_retail news db =
     (case insert_retail_rows news (retail db) of
        Inl e \<Rightarrow> Inl e
      | Inr tbl \<Rightarrow> Inr (db\<lparr>retail := tbl\<rparr>))"

text \<open>
  \<^verbatim>\<open>UPDATE retail SET ... WHERE ...\<close>: \<open>cond\<close> is the \<^verbatim>\<open>WHERE\<close> clause and \<open>setter\<close> the
  \<^verbatim>\<open>SET\<close> list. For every row the clause selects, the server evaluates the \<^verbatim>\<open>SET\<close>
  list, which may fail, and then runs the trigger on the new version of the row; the first
  error aborts the statement.
\<close>

fun update_retail_rows ::
  "(retail_row \<Rightarrow> bool) \<Rightarrow> (retail_row \<Rightarrow> pg_error + retail_row) \<Rightarrow> retail_row list
     \<Rightarrow> pg_error + retail_row list" where
  "update_retail_rows cond setter [] = Inr []"
| "update_retail_rows cond setter (r # rs) =
     (if cond r then
        (case setter r of
           Inl e \<Rightarrow> Inl e
         | Inr new \<Rightarrow>
             (case enforce_positive_values new of
                Inl e \<Rightarrow> Inl e
              | Inr r' \<Rightarrow>
                  (case update_retail_rows cond setter rs of
                     Inl e \<Rightarrow> Inl e
                   | Inr rs' \<Rightarrow> Inr (r' # rs'))))
      else
        (case update_retail_rows cond setter rs of
           Inl e \<Rightarrow> Inl e
         | Inr rs' \<Rightarrow> Inr (r # rs')))"

definition update_retail_with ::
  "(retail_row \<Rightarrow> bool) \<Rightarrow> (retail_row \<Rightarrow> pg_error + retail_row) \<Rightarrow> database
     \<Rightarrow> pg_error + database" where
  "update_retail_with cond setter db =
     (case update_retail_rows cond setter (retail db) of
        Inl e \<Rightarrow> Inl e
      | Inr tbl \<Rightarrow> Inr (db\<lparr>retail := tbl\<rparr>))"

text \<open>
  An update whose \<^verbatim>\<open>SET\<close> list cannot fail, such as one that assigns given values.
\<close>

definition update_retail ::
  "(retail_row \<Rightarrow> bool) \<Rightarrow> (retail_row \<Rightarrow> retail_row) \<Rightarrow> database
     \<Rightarrow> pg_error + database" where
  "update_retail cond setter db = update_retail_with cond (\<lambda>r. Inr (setter r)) db"

subsection \<open>The trigger \<^verbatim>\<open>update_stock\<close>\<close>

text \<open>
  \<^verbatim>\<open>UPDATE retail SET quantity = quantity - NEW.quantity WHERE stockcode = NEW.product_id\<close>.
  The statement is an update of \<^verbatim>\<open>retail\<close>, so the trigger of that table runs on each
  row it changes, after the difference has been computed.
\<close>

definition stock_row_of :: "orders_row \<Rightarrow> retail_row \<Rightarrow> bool" where
  "stock_row_of new r = sql_true (sql_eq (stockcode r) (product_id new))"

definition decrement :: "orders_row \<Rightarrow> retail_row \<Rightarrow> pg_error + retail_row" where
  "decrement new r =
     (case sql_minus (quantity r) (order_quantity new) of
        Inl e \<Rightarrow> Inl e
      | Inr q \<Rightarrow> Inr (r\<lparr>quantity := q\<rparr>))"

definition update_stock :: "orders_row \<Rightarrow> database \<Rightarrow> pg_error + database" where
  "update_stock new db = update_retail_with (stock_row_of new) (decrement new) db"

text \<open>
  \<^verbatim>\<open>INSERT INTO orders\<close>: the row is stored, then \<^verbatim>\<open>trg_update_stock\<close> runs
  \<open>update_stock\<close> on it, inside the same statement.
\<close>

definition insert_orders :: "orders_row \<Rightarrow> database \<Rightarrow> pg_error + database" where
  "insert_orders new db = update_stock new (db\<lparr>orders := orders db @ [new]\<rparr>)"

section \<open>JavaScript values\<close>

subsection \<open>Numbers\<close>

text \<open>
  A JavaScript number is \<^verbatim>\<open>NaN\<close>, an infinity or a finite value. Finite values are
  rationals here: the rounding of IEEE doubles is not modelled, which is exact for the
  integers below \<open>2 ^ 53\<close>, and negative zero is zero.
\<close>

datatype js_num = NaN | PInf | NInf | Fin rat

fun num_neg :: "js_num \<Rightarrow> js_num" where
  "num_neg NaN = NaN"
| "num_neg PInf = NInf"
| "num_neg NInf = PInf"
| "num_neg (Fin a) = Fin (- a)"

fun num_add :: "js_num \<Rightarrow> js_num \<Rightarrow> js_num" where
  "num_add NaN _ = NaN"
| "num_add _ NaN = NaN"
| "num_add (Fin a) (Fin b) = Fin (a + b)"
| "num_add PInf NInf = NaN"
| "num_add NInf PInf = NaN"
| "num_add PInf _ = PInf"
| "num_add NInf _ = NInf"
| "num_add (Fin a) b = b"

definition num_sub :: "js_num \<Rightarrow> js_num \<Rightarrow> js_num" where
  "num_sub a b = num_add a (num_neg b)"

definition num_sign :: "js_num \<Rightarrow> int" where
  "num_sign a = (case a of NaN \<Rightarrow> 0 | PInf \<Rightarrow> 1 | NInf \<Rightarrow> - 1 | Fin r \<Rightarrow> (if r < 0 then - 1 else if r = 0 then 0 else 1))"

definition num_inf :: "int \<Rightarrow> js_num" where
  "num_inf s = (if s = 0 then NaN else if 0 < s then PInf else NInf)"

fun num_mul :: "js_num \<Rightarrow> js_num \<Rightarrow> js_num" where
  "num_mul NaN _ = NaN"
| "num_mul _ NaN = NaN"
| "num_mul (Fin a) (Fin b) = Fin (a * b)"
| "num_mul a b = num_inf (num_sign a * num_sign b)"

fun num_div :: "js_num \<Rightarrow> js_num \<Rightarrow> js_num" where
  "num_div NaN _ = NaN"
| "num_div _ NaN = NaN"
| "num_div (Fin a) (Fin b) = (if b = 0 then num_inf (num_sign (Fin a)) else Fin (a / b))"
| "num_div (Fin a) _ = Fin 0"
| "num_div a (Fin b) = num_inf (num_sign a * (if b < 0 then - 1 else 1))"
| "num_div _ _ = NaN"

fun num_ceil :: "js_num \<Rightarrow> js_num" where
  "num_ceil (Fin a) = Fin (of_int \<lceil>a\<rceil>)"
| "num_ceil a = a"

fun num_lt :: "js_num \<Rightarrow> js_num \<Rightarrow> bool" where
  "num_lt NaN _ = False"
| "num_lt _ NaN = False"
| "num_lt (Fin a) (Fin b) = (a < b)"
| "num_lt _ NInf = False"
| "num_lt PInf _ = False"
| "num_lt _ _ = True"

definition num_gt :: "js_num \<Rightarrow> js_num \<Rightarrow> bool" where
  "num_gt a b = num_lt b a"

definition num_le :: "js_num \<Rightarrow> js_num \<Rightarrow> bool" where
  "num_le a b = (a \<noteq> NaN \<and> b \<noteq> NaN \<and> \<not> num_lt b a)"

subsection \<open>Strings and their numeric readings\<close>

text \<open>
  A string is the list of its code units, of which the 8-bit ones are represented.
  \<open>string_to_number\<close> is the conversion that \<^verbatim>\<open>Number\<close>, \<^verbatim>\<open>isNaN\<close> and the arithmetic
  operators apply to a string; \<open>parseFloat\<close> and \<open>parseInt\<close> read a prefix.
\<close>

definition is_ws :: "char \<Rightarrow> bool" where
  "is_ws c = (c \<in> set [CHR 0x09, CHR 0x0A, CHR 0x0B, CHR 0x0C, CHR 0x0D, CHR 0x20, CHR 0xA0])"

definition trim_start :: "string \<Rightarrow> string" where
  "trim_start s = dropWhile is_ws s"

definition trim :: "string \<Rightarrow> string" where
  "trim s = rev (dropWhile is_ws (rev (dropWhile is_ws s)))"

definition digit_of :: "char \<Rightarrow> nat option" where
  "digit_of c =
     (let n = (of_char c :: nat) in
      if 48 \<le> n \<and> n \<le> 57 then Some (n - 48)
      else if 97 \<le> n \<and> n \<le> 122 then Some (n - 87)
      else if 65 \<le> n \<and> n \<le> 90 then Some (n - 55)
      else None)"

definition is_radix_digit :: "nat \<Rightarrow> char \<Rightarrow> bool" where
  "is_radix_digit b c = (case digit_of c of None \<Rightarrow> False | Some d \<Rightarrow> d < b)"

definition radix_val :: "nat \<Rightarrow> string \<Rightarrow> nat" where
  "radix_val b s = foldl (\<lambda>a c. b * a + (case digit_of c of None \<Rightarrow> 0 | Some d \<Rightarrow> d)) 0 s"

definition is_digit :: "char \<Rightarrow> bool" where
  "is_digit c = is_radix_digit 10 c"

definition all_digits :: "string \<Rightarrow> bool" where
  "all_digits s = (s \<noteq> [] \<and> list_all is_digit s)"

definition split_sign :: "string \<Rightarrow> bool \<times> string" where
  "split_sign s =
     (case s of
        [] \<Rightarrow> (False, s)
      | c # r \<Rightarrow> if c = CHR ''-'' then (True, r) else if c = CHR ''+'' then (False, r) else (False, s))"

definition pow10 :: "int \<Rightarrow> rat" where
  "pow10 e = (if 0 \<le> e then 10 ^ nat e else 1 / 10 ^ nat (- e))"

definition decimal_value :: "string \<Rightarrow> string \<Rightarrow> int \<Rightarrow> rat" where
  "decimal_value ip fp e = (of_nat (radix_val 10 ip) + of_nat (radix_val 10 fp) / 10 ^ length fp) * pow10 e"

definition signed_integer :: "string \<Rightarrow> int option" where
  "signed_integer s =
     (case split_sign s of (neg, u) \<Rightarrow>
        if all_digits u then Some (if neg then - int (radix_val 10 u) else int (radix_val 10 u)) else None)"

definition exponent_part :: "string \<Rightarrow> int option" where
  "exponent_part s =
     (case s of
        [] \<Rightarrow> Some 0
      | c # r \<Rightarrow> if c = CHR ''e'' \<or> c = CHR ''E'' then signed_integer r else None)"

definition str_unsigned_decimal :: "string \<Rightarrow> rat option" where
  "str_unsigned_decimal s =
     (let ip = takeWhile is_digit s; r = dropWhile is_digit s in
      case r of
        [] \<Rightarrow> if ip = [] then None else Some (decimal_value ip [] 0)
      | c # r2 \<Rightarrow>
          if c = CHR ''.'' then
            (let fp = takeWhile is_digit r2; r3 = dropWhile is_digit r2 in
             if ip = [] \<and> fp = [] then None
             else map_option (decimal_value ip fp) (exponent_part r3))
          else if ip = [] then None
          else map_option (decimal_value ip []) (exponent_part r))"

definition str_decimal :: "string \<Rightarrow> js_num" where
  "str_decimal s =
     (case split_sign s of (neg, u) \<Rightarrow>
        if u = ''Infinity'' then (if neg then NInf else PInf)
        else (case str_unsigned_decimal u of
                None \<Rightarrow> NaN
              | Some v \<Rightarrow> Fin (if neg then - v else v)))"

definition radix_of_prefix :: "char \<Rightarrow> nat" where
  "radix_of_prefix x =
     (if x = CHR ''x'' \<or> x = CHR ''X'' then 16
      else if x = CHR ''o'' \<or> x = CHR ''O'' then 8
      else if x = CHR ''b'' \<or> x = CHR ''B'' then 2
      else 0)"

definition non_decimal :: "string \<Rightarrow> nat option" where
  "non_decimal s =
     (case s of
        c0 # x # ds \<Rightarrow>
          if c0 = CHR ''0'' \<and> radix_of_prefix x \<noteq> 0 \<and> ds \<noteq> [] \<and> list_all (is_radix_digit (radix_of_prefix x)) ds
          then Some (radix_val (radix_of_prefix x) ds) else None
      | _ \<Rightarrow> None)"

definition string_to_number :: "string \<Rightarrow> js_num" where
  "string_to_number s =
     (let t = trim s in
      if t = [] then Fin 0
      else (case non_decimal t of
              Some n \<Rightarrow> Fin (of_nat n)
            | None \<Rightarrow> str_decimal t))"

definition float_exponent :: "string \<Rightarrow> int" where
  "float_exponent s =
     (case s of
        [] \<Rightarrow> 0
      | c # r \<Rightarrow>
          if c = CHR ''e'' \<or> c = CHR ''E'' then
            (case split_sign r of (neg, u) \<Rightarrow>
               let ds = takeWhile is_digit u in
               if ds = [] then 0 else (if neg then - int (radix_val 10 ds) else int (radix_val 10 ds)))
          else 0)"

definition parseFloat :: "string \<Rightarrow> js_num" where
  "parseFloat s =
     (case split_sign (trim_start s) of (neg, u) \<Rightarrow>
        if take 8 u = ''Infinity'' then (if neg then NInf else PInf)
        else
          (let ip = takeWhile is_digit u; r = dropWhile is_digit u;
               fp = (case r of [] \<Rightarrow> [] | c # r2 \<Rightarrow> if c = CHR ''.'' then takeWhile is_digit r2 else []);
               r3 = (case r of [] \<Rightarrow> [] | c # r2 \<Rightarrow> if c = CHR ''.'' then dropWhile is_digit r2 else r)
           in if ip = [] \<and> fp = [] then NaN
              else Fin ((if neg then - 1 else 1) * decimal_value ip fp (float_exponent r3))))"

definition parseInt :: "string \<Rightarrow> js_num" where
  "parseInt s =
     (case split_sign (trim_start s) of (neg, u) \<Rightarrow>
        let hex = (case u of c0 # x # r \<Rightarrow> c0 = CHR ''0'' \<and> (x = CHR ''x'' \<or> x = CHR ''X'') | _ \<Rightarrow> False);
            b = (if hex then 16 else 10);
            ds = takeWhile (is_radix_digit b) (if hex then drop 2 u else u)
        in if ds = [] then NaN
           else Fin (of_int (if neg then - int (radix_val b ds) else int (radix_val b ds))))"

fun show_nat :: "nat \<Rightarrow> string" where
  "show_nat n = (if n < 10 then [char_of (48 + n)] else show_nat (n div 10) @ [char_of (48 + n mod 10)])"

declare show_nat.simps [simp del]

subsection \<open>Exceptions\<close>

text \<open>
  What a handler catches is an error object: a failure reported by the database has a
  five-character \<^verbatim>\<open>code\<close>, an exception of the language has none.
\<close>

record js_error =
  err_code :: "string option"
  err_message :: string

definition database_error :: "string \<Rightarrow> string \<Rightarrow> js_error" where
  "database_error c m = \<lparr>err_code = Some c, err_message = m\<rparr>"

definition type_error :: "string \<Rightarrow> js_error" where
  "type_error m = \<lparr>err_code = None, err_message = m\<rparr>"

subsection \<open>Values of a JSON body\<close>

text \<open>
  \<open>JUndefined\<close> is what reading an absent property gives. A row object is the object the
  database driver builds from a result row.
\<close>

datatype jsval =
    JUndefined
  | JNull
  | JBool bool
  | JNum js_num
  | JStr string
  | JArr "jsval list"
  | JObj "(string \<times> jsval) list"
  | Product_row product
  | Retail_row retail_row

definition get_prop :: "(string \<times> jsval) list \<Rightarrow> string \<Rightarrow> jsval" where
  "get_prop obj k = (case map_of obj k of None \<Rightarrow> JUndefined | Some v \<Rightarrow> v)"

fun truthy :: "jsval \<Rightarrow> bool" where
  "truthy JUndefined = False"
| "truthy JNull = False"
| "truthy (JBool b) = b"
| "truthy (JNum n) = (n \<noteq> NaN \<and> n \<noteq> Fin 0)"
| "truthy (JStr s) = (s \<noteq> [])"
| "truthy _ = True"

text \<open>
  An object converts to a primitive through its \<^verbatim>\<open>toString\<close>. A parsed object whose
  own property \<^verbatim>\<open>toString\<close> hides the inherited method has nothing to call, and the
  conversion throws a \<^verbatim>\<open>TypeError\<close>; so does the conversion of an array with such an
  element.
\<close>

fun unprintable :: "jsval \<Rightarrow> bool" where
  "unprintable (JObj kvs) = (''toString'' \<in> set (map fst kvs))"
| "unprintable (JArr xs) = list_ex unprintable xs"
| "unprintable _ = False"

text \<open>
  \<open>number_value\<close> is the number a value that converts has. An array converts through its
  string, the strings of its elements joined by commas: the empty array gives the empty
  string, a one-element array the string of its element (empty for \<^verbatim>\<open>null\<close>), and a
  comma is part of no numeric literal. \<open>to_number\<close> is the conversion behind
  \<^verbatim>\<open>isNaN(v)\<close> and \<^verbatim>\<open>v <= 0\<close>.
\<close>

fun number_value :: "jsval \<Rightarrow> js_num" where
  "number_value JUndefined = NaN"
| "number_value JNull = Fin 0"
| "number_value (JBool b) = Fin (if b then 1 else 0)"
| "number_value (JNum n) = n"
| "number_value (JStr s) = string_to_number s"
| "number_value (JArr []) = Fin 0"
| "number_value (JArr [JUndefined]) = Fin 0"
| "number_value (JArr [JNull]) = Fin 0"
| "number_value (JArr [JNum n]) = n"
| "number_value (JArr [JStr s]) = string_to_number s"
| "number_value (JArr [JArr ys]) = number_value (JArr ys)"
| "number_value _ = NaN"

definition to_number :: "jsval \<Rightarrow> js_error + js_num" where
  "to_number v =
     (if unprintable v then Inl (type_error ''Cannot convert object to primitive value'')
      else Inr (number_value v))"

subsection \<open>Values of a query string\<close>

text \<open>
  The query-string parser gives a string, an array (\<^verbatim>\<open>?a=1&a=2\<close>) or an object
  (\<^verbatim>\<open>?a[b]=1\<close>) for each parameter it finds.
\<close>

datatype qval = QStr string | QArr "qval list" | QObj "(string \<times> qval) list"

type_synonym query = "(string \<times> qval) list"

fun join :: "string \<Rightarrow> string list \<Rightarrow> string" where
  "join sep [] = []"
| "join sep [x] = x"
| "join sep (x # y # ys) = x @ sep @ join sep (y # ys)"

fun q_unprintable :: "qval \<Rightarrow> bool" where
  "q_unprintable (QObj kvs) = (''toString'' \<in> set (map fst kvs))"
| "q_unprintable (QArr xs) = list_ex q_unprintable xs"
| "q_unprintable (QStr s) = False"

fun string_value :: "qval \<Rightarrow> string" where
  "string_value (QStr s) = s"
| "string_value (QArr xs) = join '','' (map string_value xs)"
| "string_value (QObj kvs) = ''[object Object]''"

definition q_to_string :: "qval \<Rightarrow> js_error + string" where
  "q_to_string v =
     (if q_unprintable v then Inl (type_error ''Cannot convert object to primitive value'')
      else Inr (string_value v))"

definition q_to_number :: "qval \<Rightarrow> js_error + js_num" where
  "q_to_number v = (case q_to_string v of Inl e \<Rightarrow> Inl e | Inr s \<Rightarrow> Inr (string_to_number s))"

fun q_truthy :: "qval \<Rightarrow> bool" where
  "q_truthy (QStr s) = (s \<noteq> [])"
| "q_truthy _ = True"

text \<open>
  A destructuring default applies to an absent parameter. The numeric defaults
  \<^verbatim>\<open>page = 1\<close> and \<^verbatim>\<open>limit = 10\<close> are numbers where a parameter is a \<open>qval\<close>, so each
  operation on such a variable takes the value of the operation on the default.
\<close>

definition dflt :: "'a \<Rightarrow> 'a option \<Rightarrow> 'a" where
  "dflt d v = (case v of None \<Rightarrow> d | Some x \<Rightarrow> x)"

definition number_of :: "nat \<Rightarrow> qval option \<Rightarrow> js_error + js_num" where
  "number_of d v = (case v of None \<Rightarrow> Inr (Fin (of_nat d)) | Some x \<Rightarrow> q_to_number x)"

definition parseInt_of :: "nat \<Rightarrow> qval option \<Rightarrow> js_error + js_num" where
  "parseInt_of d v =
     (case v of
        None \<Rightarrow> Inr (Fin (of_nat d))
      | Some x \<Rightarrow> (case q_to_string x of Inl e \<Rightarrow> Inl e | Inr s \<Rightarrow> Inr (parseInt s)))"

text \<open>
  \<open>toUpperCase\<close> maps the letters a to z. The handler compares its result with
  \<^verbatim>\<open>ASC\<close> and \<^verbatim>\<open>DESC\<close> and uses it when it is one of them; of the other 8-bit code
  units none has an upper-case form that occurs in these words (that of the sharp s is
  \<^verbatim>\<open>SS\<close>), so the comparison and the result used are those of the full mapping.
\<close>

definition toUpperCase :: "string \<Rightarrow> string" where
  "toUpperCase s =
     map (\<lambda>c. if 97 \<le> (of_char c :: nat) \<and> (of_char c :: nat) \<le> 122 then char_of ((of_char c :: nat) - 32) else c) s"

subsection \<open>Responses\<close>

record response =
  status :: nat
  body :: jsval

definition json :: "jsval \<Rightarrow> response" where
  "json v = \<lparr>status = 200, body = v\<rparr>"

definition status_json :: "nat \<Rightarrow> jsval \<Rightarrow> response" where
  "status_json n v = \<lparr>status = n, body = v\<rparr>"

definition handleDatabaseError :: "string option \<Rightarrow> js_error \<Rightarrow> response" where
  "handleDatabaseError node_env error =
     (if err_code error = Some ''23505'' then
        status_json 409 (JObj [(''error'', JStr ''Product with this stock_code already exists'')])
      else if err_code error = Some ''23503'' then
        status_json 400 (JObj [(''error'', JStr ''Referenced record does not exist'')])
      else if err_code error = Some ''23514'' then
        status_json 400 (JObj [(''error'',
          JStr ''Data violates database constraints (e.g., negative stock or zero price)'')])
      else
        status_json 500 (JObj [(''error'', JStr ''Internal server error''),
          (''message'', JStr (if node_env = Some ''development'' then err_message error
                              else ''Database operation failed''))]))"

text \<open>
  An exception that leaves a middleware reaches the error handler registered last.
\<close>

definition global_error_handler :: "string option \<Rightarrow> js_error \<Rightarrow> response" where
  "global_error_handler node_env error =
     status_json 500 (JObj [(''success'', JBool False), (''error'', JStr ''Internal server error''),
       (''message'', JStr (if node_env = Some ''development'' then err_message error
                           else ''Something went wrong''))])"

section \<open>The product API\<close>

subsection \<open>What the database does with a query\<close>

text \<open>
  A query parameter is the JavaScript value handed to \<^verbatim>\<open>client.query\<close>. Where a query
  needs an integer (a \<^verbatim>\<open>LIMIT\<close>, an \<^verbatim>\<open>OFFSET\<close>, a comparison with
  \<^verbatim>\<open>product_id\<close>), the server reads the text the driver sends for the value in the
  decimal syntax of its integer input and fails on anything else: a number that is not
  an integer, an array or an object are no integers.
\<close>

datatype pg_param = P_text string | P_num js_num | P_bool bool | P_query qval

definition is_pg_space :: "char \<Rightarrow> bool" where
  "is_pg_space c = (c \<in> set [CHR 0x09, CHR 0x0A, CHR 0x0B, CHR 0x0C, CHR 0x0D, CHR 0x20])"

definition pg_int_text :: "string \<Rightarrow> int option" where
  "pg_int_text s = signed_integer (rev (dropWhile is_pg_space (rev (dropWhile is_pg_space s))))"

definition pg_integer :: "nat \<Rightarrow> pg_param \<Rightarrow> int option" where
  "pg_integer bits v =
     (case (case v of
              P_text s \<Rightarrow> pg_int_text s
            | P_query (QStr s) \<Rightarrow> pg_int_text s
            | P_num (Fin r) \<Rightarrow> if of_int \<lfloor>r\<rfloor> = r then Some \<lfloor>r\<rfloor> else None
            | _ \<Rightarrow> None) of
        None \<Rightarrow> None
      | Some n \<Rightarrow> if - (2 ^ (bits - 1)) \<le> n \<and> n < 2 ^ (bits - 1) then Some n else None)"

definition pg_text :: "pg_param \<Rightarrow> string option" where
  "pg_text v = (case v of P_text s \<Rightarrow> Some s | P_query (QStr s) \<Rightarrow> Some s | _ \<Rightarrow> None)"

definition param_at :: "pg_param list \<Rightarrow> nat \<Rightarrow> pg_param option" where
  "param_at ps i = (if 1 \<le> i \<and> i \<le> length ps then Some (ps ! (i - 1)) else None)"

text \<open>
  How the server decides a \<^verbatim>\<open>WHERE\<close> clause on a row (pattern matching, comparison
  with a parameter, or the failure to read a parameter) and how it orders rows for
  \<^verbatim>\<open>ORDER BY\<close> are the server's; the handlers only write the clauses. Both are
  parameters of the model.
\<close>

record engine =
  eval_where :: "string \<Rightarrow> pg_param list \<Rightarrow> js_error + (product \<Rightarrow> bool)"
  order_by :: "string \<Rightarrow> string \<Rightarrow> product list \<Rightarrow> product list"

record select_query =
  where_clause :: string
  order_column :: string
  order_direction :: string
  limit_placeholder :: nat
  offset_placeholder :: nat

definition select_products :: "engine \<Rightarrow> select_query \<Rightarrow> pg_param list \<Rightarrow> database \<Rightarrow> js_error + product list" where
  "select_products eng q ps db =
     (case eval_where eng (where_clause q) ps of
        Inl e \<Rightarrow> Inl e
      | Inr holds \<Rightarrow>
          (case Option.bind (param_at ps (limit_placeholder q)) (pg_integer 64) of
             None \<Rightarrow> Inl (database_error ''22P02'' ''invalid input syntax for type bigint'')
           | Some l \<Rightarrow>
               (case Option.bind (param_at ps (offset_placeholder q)) (pg_integer 64) of
                  None \<Rightarrow> Inl (database_error ''22P02'' ''invalid input syntax for type bigint'')
                | Some off \<Rightarrow>
                    if l < 0 then Inl (database_error ''2201W'' ''LIMIT must not be negative'')
                    else if off < 0 then Inl (database_error ''2201X'' ''OFFSET must not be negative'')
                    else Inr (take (nat l) (drop (nat off)
                           (order_by eng (order_column q) (order_direction q)
                              (filter holds (products db))))))))"

text \<open>\<^verbatim>\<open>COUNT(*)\<close> is a \<^verbatim>\<open>bigint\<close>, which the driver hands over as a decimal string.\<close>

definition count_products :: "engine \<Rightarrow> string \<Rightarrow> pg_param list \<Rightarrow> database \<Rightarrow> js_error + string" where
  "count_products eng clause ps db =
     (case eval_where eng clause ps of
        Inl e \<Rightarrow> Inl e
      | Inr holds \<Rightarrow> Inr (show_nat (length (filter holds (products db)))))"

subsection \<open>\<^verbatim>\<open>GET /api/products\<close>\<close>

definition validSortColumns :: "string list" where
  "validSortColumns = [''product_id'', ''stock_code'', ''description'', ''unit_price'',
     ''stock_quantity'', ''created_at'', ''updated_at'']"

definition validSortOrders :: "string list" where
  "validSortOrders = [''ASC'', ''DESC'']"

definition array_includes :: "string list \<Rightarrow> qval \<Rightarrow> bool" where
  "array_includes xs v = (case v of QStr s \<Rightarrow> s \<in> set xs | _ \<Rightarrow> False)"

definition sortColumn :: "qval option \<Rightarrow> string" where
  "sortColumn sort_by =
     (if array_includes validSortColumns (dflt (QStr ''stock_code'') sort_by)
      then string_value (dflt (QStr ''stock_code'') sort_by) else ''stock_code'')"

text \<open>Only a string has \<^verbatim>\<open>toUpperCase\<close>: on an array or an object the call throws.\<close>

definition sortOrderValue :: "qval option \<Rightarrow> js_error + string" where
  "sortOrderValue sort_order =
     (case dflt (QStr ''ASC'') sort_order of
        QStr s \<Rightarrow> Inr (if toUpperCase s \<in> set validSortOrders then toUpperCase s else ''ASC'')
      | _ \<Rightarrow> Inl (type_error ''sort_order.toUpperCase is not a function''))"

definition placeholder :: "nat \<Rightarrow> string" where
  "placeholder i = CHR ''$'' # show_nat i"

definition add_search ::
  "qval option \<Rightarrow> string list \<times> pg_param list \<times> nat
     \<Rightarrow> js_error + string list \<times> pg_param list \<times> nat" where
  "add_search search st =
     (case st of (whereConditions, queryParams, paramIndex) \<Rightarrow>
        if q_truthy (dflt (QStr []) search) then
          (case q_to_string (dflt (QStr []) search) of
             Inl e \<Rightarrow> Inl e
           | Inr text \<Rightarrow>
               Inr (whereConditions @ [''(description ILIKE '' @ placeholder paramIndex
                                        @ '' OR stock_code ILIKE '' @ placeholder paramIndex @ '')''],
                    queryParams @ [P_text (''%'' @ text @ ''%'')],
                    paramIndex + 1))
        else Inr st)"

definition add_category :: "qval option \<Rightarrow> string list \<times> pg_param list \<times> nat \<Rightarrow> string list \<times> pg_param list \<times> nat" where
  "add_category category st =
     (case st of (whereConditions, queryParams, paramIndex) \<Rightarrow>
        (case category of
           None \<Rightarrow> st
         | Some v \<Rightarrow>
             if q_truthy v then
               (whereConditions @ [''category_id = '' @ placeholder paramIndex],
                queryParams @ [P_query v], paramIndex + 1)
             else st))"

definition add_active :: "qval option \<Rightarrow> string list \<times> pg_param list \<times> nat \<Rightarrow> string list \<times> pg_param list \<times> nat" where
  "add_active active st =
     (case st of (whereConditions, queryParams, paramIndex) \<Rightarrow>
        (case active of
           None \<Rightarrow> st
         | Some v \<Rightarrow>
             (whereConditions @ [''is_active = '' @ placeholder paramIndex],
              queryParams @ [P_bool (v = QStr ''true'')], paramIndex + 1)))"

definition whereClause :: "string list \<Rightarrow> string" where
  "whereClause whereConditions =
     (if whereConditions = [] then [] else ''WHERE '' @ join '' AND '' whereConditions)"

definition limit_param :: "qval option \<Rightarrow> pg_param" where
  "limit_param v = (case v of None \<Rightarrow> P_num (Fin 10) | Some x \<Rightarrow> P_query x)"

text \<open>
  A parameter that is the decimal numeral of \<open>n\<close>, or is absent where \<open>n\<close> is its default:
  the form in which a page number and a page size are sent.
\<close>

definition numeral_param :: "nat \<Rightarrow> qval option \<Rightarrow> nat \<Rightarrow> bool" where
  "numeral_param d v n =
     (case v of
        None \<Rightarrow> n = d
      | Some (QStr s) \<Rightarrow> all_digits s \<and> radix_val 10 s = n
      | Some _ \<Rightarrow> False)"

text \<open>
  The handler first builds the query and its parameters; an exception thrown on the way
  (by a conversion, or by \<^verbatim>\<open>toUpperCase\<close>) goes to the \<^verbatim>\<open>catch\<close> block, as a failure of
  the database does.
\<close>

definition build_query :: "query \<Rightarrow> js_error + select_query \<times> pg_param list" where
  "build_query q =
     (case number_of 1 (map_of q ''page'') of
        Inl error \<Rightarrow> Inl error
      | Inr page \<Rightarrow>
     (case number_of 10 (map_of q ''limit'') of
        Inl error \<Rightarrow> Inl error
      | Inr limit \<Rightarrow>
     (case sortOrderValue (map_of q ''sort_order'') of
        Inl error \<Rightarrow> Inl error
      | Inr sortOrd \<Rightarrow>
     (case add_search (map_of q ''search'') ([], [], 1) of
        Inl error \<Rightarrow> Inl error
      | Inr st \<Rightarrow>
     (case add_active (map_of q ''is_active'') (add_category (map_of q ''category_id'') st) of
        (whereConditions, queryParams, paramIndex) \<Rightarrow>
          Inr (\<lparr>where_clause = whereClause whereConditions,
                order_column = sortColumn (map_of q ''sort_by''),
                order_direction = sortOrd, limit_placeholder = paramIndex,
                offset_placeholder = paramIndex + 1\<rparr>,
               queryParams @ [limit_param (map_of q ''limit''),
                              P_num (num_mul (num_sub page (Fin 1)) limit)]))))))"

text \<open>
  The two queries run, and the response is written from their results. The conversions
  of \<^verbatim>\<open>page\<close> and \<^verbatim>\<open>limit\<close> are made again where the code makes them.
\<close>

definition pagination :: "query \<Rightarrow> js_num \<Rightarrow> js_error + jsval" where
  "pagination q total_records =
     (case number_of 10 (map_of q ''limit'') of
        Inl error \<Rightarrow> Inl error
      | Inr limit \<Rightarrow>
     (case parseInt_of 1 (map_of q ''page'') of
        Inl error \<Rightarrow> Inl error
      | Inr current_page \<Rightarrow>
     (case parseInt_of 10 (map_of q ''limit'') of
        Inl error \<Rightarrow> Inl error
      | Inr limit_int \<Rightarrow>
     (case number_of 1 (map_of q ''page'') of
        Inl error \<Rightarrow> Inl error
      | Inr page \<Rightarrow>
          let totalPages = num_ceil (num_div total_records limit) in
          Inr (JObj
            [(''current_page'', JNum current_page),
             (''total_pages'', JNum totalPages),
             (''total_records'', JNum total_records),
             (''limit'', JNum limit_int),
             (''has_next'', JBool (num_lt page totalPages)),
             (''has_prev'', JBool (num_gt page (Fin 1)))])))))"

definition get_products :: "string option \<Rightarrow> engine \<Rightarrow> query \<Rightarrow> database \<Rightarrow> response" where
  "get_products node_env eng q db =
     (case build_query q of
        Inl error \<Rightarrow> handleDatabaseError node_env error
      | Inr (query, queryParams) \<Rightarrow>
          (case select_products eng query queryParams db of
             Inl error \<Rightarrow> handleDatabaseError node_env error
           | Inr rows \<Rightarrow>
               (case count_products eng (where_clause query)
                       (take (length queryParams - 2) queryParams) db of
                  Inl error \<Rightarrow> handleDatabaseError node_env error
                | Inr cnt \<Rightarrow>
                    (case pagination q (parseInt cnt) of
                       Inl error \<Rightarrow> handleDatabaseError node_env error
                     | Inr meta \<Rightarrow>
                         json (JObj
                           [(''success'', JBool True),
                            (''data'', JArr (map Product_row rows)),
                            (''pagination'', meta)])))))"

subsection \<open>Looking a product up by its identifier\<close>

text \<open>
  The handlers of \<^verbatim>\<open>/api/products/:id\<close> start with the same three lines, which choose
  the column and the value to search for. A path parameter is a string.
\<close>

definition isNumeric :: "string \<Rightarrow> bool" where
  "isNumeric ident = (string_to_number ident \<noteq> NaN \<and> parseFloat ident \<noteq> NaN)"

definition searchField :: "string \<Rightarrow> string" where
  "searchField ident = (if isNumeric ident then ''product_id'' else ''stock_code'')"

definition searchValue :: "string \<Rightarrow> pg_param" where
  "searchValue ident = (if isNumeric ident then P_num (parseInt ident) else P_text ident)"

text \<open>
  \<^verbatim>\<open>SELECT ... FROM products WHERE <field> = $1\<close>, for the two fields the handlers
  write there. \<^verbatim>\<open>product_id\<close> is a 32-bit integer column.
\<close>

definition products_where :: "string \<Rightarrow> pg_param \<Rightarrow> database \<Rightarrow> js_error + product list" where
  "products_where field v db =
     (if field = ''product_id'' then
        (case pg_integer 32 v of
           None \<Rightarrow> Inl (database_error ''22P02'' ''invalid input syntax for type integer'')
         | Some n \<Rightarrow> Inr (filter (\<lambda>p. p_product_id p = n) (products db)))
      else
        (case pg_text v of
           None \<Rightarrow> Inl (database_error ''22P02'' ''invalid input syntax'')
         | Some s \<Rightarrow> Inr (filter (\<lambda>p. stock_code p = s) (products db))))"

definition find_product :: "string \<Rightarrow> database \<Rightarrow> js_error + product list" where
  "find_product ident db = products_where (searchField ident) (searchValue ident) db"

subsection \<open>\<^verbatim>\<open>DELETE /api/products/:id\<close>\<close>

text \<open>
  The check query joins the product with its order items and with its inventory
  movements and groups by the product, whose \<^verbatim>\<open>product_id\<close> is the primary key. The
  two left joins multiply: a product with \<open>a\<close> order items and \<open>b\<close> movements has
  \<open>max 1 a * max 1 b\<close> joined rows, of which \<open>a * max 1 b\<close> have an order item.
\<close>

record check_row =
  cr_product_id :: int
  cr_stock_code :: string
  order_items_count :: string
  inventory_movements_count :: string

definition dependents :: "product \<Rightarrow> database \<Rightarrow> nat \<times> nat" where
  "dependents p db =
     (length (filter (\<lambda>oi. oi_product_id oi = p_product_id p) (order_items db)),
      length (filter (\<lambda>im. im_product_id im = p_product_id p) (inventory_movements db)))"

definition check_row_of :: "database \<Rightarrow> product \<Rightarrow> check_row" where
  "check_row_of db p =
     (case dependents p db of (a, b) \<Rightarrow>
        \<lparr>cr_product_id = p_product_id p, cr_stock_code = stock_code p,
         order_items_count = show_nat (a * max 1 b),
         inventory_movements_count = show_nat (b * max 1 a)\<rparr>)"

definition delete_check :: "string \<Rightarrow> pg_param \<Rightarrow> database \<Rightarrow> js_error + check_row list" where
  "delete_check field v db =
     (case products_where field v db of
        Inl e \<Rightarrow> Inl e
      | Inr ps \<Rightarrow> Inr (map (check_row_of db) ps))"

text \<open>
  \<^verbatim>\<open>DELETE FROM products WHERE product_id = $1 RETURNING *\<close>. The sources declare no
  constraint of another table on \<^verbatim>\<open>products\<close>, so the statement has no failure here.
\<close>

definition delete_from_products :: "int \<Rightarrow> database \<Rightarrow> product list \<times> database" where
  "delete_from_products n db =
     (filter (\<lambda>p. p_product_id p = n) (products db),
      db\<lparr>products := filter (\<lambda>p. p_product_id p \<noteq> n) (products db)\<rparr>)"

definition delete_product :: "string option \<Rightarrow> string \<Rightarrow> database \<Rightarrow> response \<times> database" where
  "delete_product node_env ident db =
     (case delete_check (searchField ident) (searchValue ident) db of
        Inl error \<Rightarrow> (handleDatabaseError node_env error, db)
      | Inr [] \<Rightarrow>
          (status_json 404 (JObj [(''success'', JBool False), (''error'', JStr ''Product not found'')]), db)
      | Inr (product # _) \<Rightarrow>
          let totalRelatedRecords =
                num_add (parseInt (order_items_count product)) (parseInt (inventory_movements_count product))
          in if num_gt totalRelatedRecords (Fin 0) then
               (status_json 409 (JObj
                  [(''success'', JBool False),
                   (''error'', JStr ''Cannot delete product with existing related records''),
                   (''related_records'', JObj
                      [(''order_items'', JNum (parseInt (order_items_count product))),
                       (''inventory_movements'', JNum (parseInt (inventory_movements_count product)))])]),
                db)
             else
               (case delete_from_products (cr_product_id product) db of
                  (rows, db') \<Rightarrow>
                    (json (JObj
                       [(''success'', JBool True),
                        (''message'', JStr ''Product deleted successfully''),
                        (''deleted_product'', (case rows of [] \<Rightarrow> JUndefined | r # _ \<Rightarrow> Product_row r))]),
                     db')))"

subsection \<open>Validation before \<^verbatim>\<open>POST\<close> and \<^verbatim>\<open>PUT\<close>\<close>

text \<open>
  A middleware answers the request, or calls \<^verbatim>\<open>next\<close>, which runs the handler
  registered after it, or throws. A handler returns its response, the database it leaves
  and the number of queries it issued.
\<close>

datatype middleware_result = Respond response | Next | Throw js_error

definition validateProduct :: "(string \<times> jsval) list \<Rightarrow> middleware_result" where
  "validateProduct req_body =
     (let stock_code = get_prop req_body ''stock_code'';
          description = get_prop req_body ''description'';
          unit_price = get_prop req_body ''unit_price''
      in if \<not> truthy stock_code \<or> \<not> truthy description then
           Respond (status_json 400 (JObj
             [(''error'', JStr ''Missing required fields''),
              (''required'', JArr [JStr ''stock_code'', JStr ''description''])]))
         else if (case stock_code of JStr s \<Rightarrow> 20 < length s | _ \<Rightarrow> True) then
           Respond (status_json 400 (JObj
             [(''error'', JStr ''stock_code must be a string with maximum 20 characters'')]))
         else if unit_price \<noteq> JUndefined then
           (case to_number unit_price of
              Inl error \<Rightarrow> Throw error
            | Inr n \<Rightarrow>
                if n = NaN \<or> num_le n (Fin 0) then
                  Respond (status_json 400 (JObj
                    [(''error'', JStr ''unit_price must be a positive number'')]))
                else Next)
         else Next)"

definition validated_route ::
  "string option \<Rightarrow> ((string \<times> jsval) list \<Rightarrow> database \<Rightarrow> response \<times> database \<times> nat)
     \<Rightarrow> (string \<times> jsval) list \<Rightarrow> database \<Rightarrow> response \<times> database \<times> nat" where
  "validated_route node_env handler req_body db =
     (case validateProduct req_body of
        Respond r \<Rightarrow> (r, db, 0)
      | Next \<Rightarrow> handler req_body db
      | Throw error \<Rightarrow> (global_error_handler node_env error, db, 0))"

subsection \<open>\<^verbatim>\<open>GET /api/retail\<close>\<close>

text \<open>
  \<^verbatim>\<open>SELECT * FROM retail LIMIT 100\<close> has no \<^verbatim>\<open>ORDER BY\<close>: the rows are the first hundred
  in the order the server reads the table, the order of the list.
\<close>

definition select_retail_limit_100 :: "database \<Rightarrow> js_error + retail_row list" where
  "select_retail_limit_100 db = Inr (take 100 (retail db))"

definition get_retail :: "query \<Rightarrow> database \<Rightarrow> response" where
  "get_retail q db =
     (case select_retail_limit_100 db of
        Inr rows \<Rightarrow> json (JArr (map Retail_row rows))
      | Inl err \<Rightarrow> status_json 500 (JObj [(''error'', JStr ''Database error occurred'')]))"

section \<open>Properties of the triggers\<close>

subsection \<open>Row-level facts\<close>

lemma enforce_positive_values_Inr: "enforce_positive_values new = Inr r \<Longrightarrow> r = new"
  by (auto simp: enforce_positive_values_def split: if_splits)

lemma enforce_rejects_iff:
  "(\<exists>e. enforce_positive_values new = Inl e) \<longleftrightarrow>
     (\<exists>q. quantity new = Some q \<and> q < 0) \<or> (\<exists>p. unit_price new = Some p \<and> p < 0)"
  by (auto simp: enforce_positive_values_def sql_true_def sql_lt_def split: option.splits)

lemma enforce_error_messages:
  "enforce_positive_values new = Inl e \<Longrightarrow>
     e = Raise_exception ''Quantity cannot be negative'' \<or> e = Raise_exception ''Unit price cannot be negative''"
  by (auto simp: enforce_positive_values_def split: if_splits)

lemma insert_retail_rows_rejects:
  "new \<in> set news \<Longrightarrow> enforce_positive_values new = Inl e \<Longrightarrow> \<exists>e'. insert_retail_rows news tbl = Inl e'"
  by (induction news arbitrary: tbl) (auto split: sum.splits)

lemma insert_retail_rows_error:
  "insert_retail_rows news tbl = Inl e \<Longrightarrow> \<exists>new \<in> set news. enforce_positive_values new = Inl e"
  by (induction news arbitrary: tbl) (auto split: sum.splits)

lemma insert_retail_rows_accepts:
  "\<forall>new \<in> set news. enforce_positive_values new = Inr new \<Longrightarrow> insert_retail_rows news tbl = Inr (tbl @ news)"
  by (induction news arbitrary: tbl) auto

lemma update_retail_rows_rejects:
  "r \<in> set rs \<Longrightarrow> cond r \<Longrightarrow>
     (\<exists>e. setter r = Inl e) \<or> (\<exists>r' e. setter r = Inr r' \<and> enforce_positive_values r' = Inl e) \<Longrightarrow>
     \<exists>e'. update_retail_rows cond setter rs = Inl e'"
  by (induction rs) (auto split: sum.splits)

lemma update_retail_rows_error:
  "update_retail_rows cond setter rs = Inl e \<Longrightarrow>
     \<exists>r \<in> set rs. cond r \<and>
        (setter r = Inl e \<or> (\<exists>r'. setter r = Inr r' \<and> enforce_positive_values r' = Inl e))"
  by (induction rs) (auto split: sum.splits if_splits)

lemma update_retail_rows_accepts:
  "\<forall>r \<in> set rs. cond r \<longrightarrow> setter r = Inr (g r) \<and> enforce_positive_values (g r) = Inr (g r) \<Longrightarrow>
     update_retail_rows cond setter rs = Inr (map (\<lambda>r. if cond r then g r else r) rs)"
  by (induction rs) auto

lemma update_retail_rows_no_match:
  "\<forall>r \<in> set rs. \<not> cond r \<Longrightarrow> update_retail_rows cond setter rs = Inr rs"
  by (induction rs) auto

lemma stock_row_of_iff:
  "stock_row_of new r \<longleftrightarrow> stockcode r \<noteq> None \<and> stockcode r = product_id new"
  by (auto simp: stock_row_of_def sql_true_def sql_eq_def split: option.splits)

subsection \<open>The positive-value guard\<close>

text \<open>
  Claim C2. An insert into \<^verbatim>\<open>retail\<close> that carries a row with a negative quantity or a
  negative unit price, and an update of \<^verbatim>\<open>retail\<close> that gives such values to a row it
  selects, are aborted by one of the two exceptions of the trigger, and the database is
  afterwards what it was before the statement: no row of the statement is visible. Values
  that are zero or more pass: the inserted row is stored and the selected rows are updated.
\<close>

theorem positive_value_guard:
  fixes db :: database
  shows
    "(new \<in> set news \<and> ((\<exists>q. quantity new = Some q \<and> q < 0) \<or> (\<exists>p. unit_price new = Some p \<and> p < 0))
        \<longrightarrow> snd (run_statement (insert_retail news) db) = db
          \<and> fst (run_statement (insert_retail news) db)
              \<in> {Some (Raise_exception ''Quantity cannot be negative''),
                 Some (Raise_exception ''Unit price cannot be negative'')})
     \<and> (r \<in> set (retail db) \<and> cond r
          \<and> ((\<exists>q. quantity (setter r) = Some q \<and> q < 0) \<or> (\<exists>p. unit_price (setter r) = Some p \<and> p < 0))
        \<longrightarrow> snd (run_statement (update_retail cond setter) db) = db
          \<and> fst (run_statement (update_retail cond setter) db)
              \<in> {Some (Raise_exception ''Quantity cannot be negative''),
                 Some (Raise_exception ''Unit price cannot be negative'')})
     \<and> (0 \<le> q0 \<and> 0 \<le> p0
        \<longrightarrow> run_statement (insert_retail [row\<lparr>quantity := Some q0, unit_price := Some p0\<rparr>]) db
            = (None, db\<lparr>retail := retail db @ [row\<lparr>quantity := Some q0, unit_price := Some p0\<rparr>]\<rparr>))
     \<and> (0 \<le> q0 \<and> 0 \<le> p0
        \<longrightarrow> run_statement (update_retail cond (\<lambda>r. r\<lparr>quantity := Some q0, unit_price := Some p0\<rparr>)) db
            = (None, db\<lparr>retail := map (\<lambda>r. if cond r then r\<lparr>quantity := Some q0, unit_price := Some p0\<rparr> else r)
                                    (retail db)\<rparr>))"
proof (intro conjI impI)
  assume a: "new \<in> set news \<and> ((\<exists>q. quantity new = Some q \<and> q < 0) \<or> (\<exists>p. unit_price new = Some p \<and> p < 0))"
  then obtain e where "enforce_positive_values new = Inl e"
    using enforce_rejects_iff [of new] by blast
  with a obtain e' where e': "insert_retail_rows news (retail db) = Inl e'"
    using insert_retail_rows_rejects by blast
  from insert_retail_rows_error [OF e'] obtain n :: retail_row where "enforce_positive_values n = Inl e'"
    by blast
  then have msg: "e' = Raise_exception ''Quantity cannot be negative'' \<or> e' = Raise_exception ''Unit price cannot be negative''"
    by (rule enforce_error_messages)
  show "snd (run_statement (insert_retail news) db) = db"
    using e' by (simp add: run_statement_def insert_retail_def)
  show "fst (run_statement (insert_retail news) db)
          \<in> {Some (Raise_exception ''Quantity cannot be negative''),
             Some (Raise_exception ''Unit price cannot be negative'')}"
    using e' msg by (auto simp: run_statement_def insert_retail_def)
next
  assume a: "r \<in> set (retail db) \<and> cond r
          \<and> ((\<exists>q. quantity (setter r) = Some q \<and> q < 0) \<or> (\<exists>p. unit_price (setter r) = Some p \<and> p < 0))"
  then obtain e where "enforce_positive_values (setter r) = Inl e"
    using enforce_rejects_iff [of "setter r"] by blast
  with a obtain e' where e': "update_retail_rows cond (\<lambda>r. Inr (setter r)) (retail db) = Inl e'"
    using update_retail_rows_rejects [of r "retail db" cond "\<lambda>r. Inr (setter r)"] by blast
  from update_retail_rows_error [OF e'] obtain n :: retail_row where "enforce_positive_values n = Inl e'"
    by auto
  then have msg: "e' = Raise_exception ''Quantity cannot be negative'' \<or> e' = Raise_exception ''Unit price cannot be negative''"
    by (rule enforce_error_messages)
  show "snd (run_statement (update_retail cond setter) db) = db"
    using e' by (simp add: run_statement_def update_retail_def update_retail_with_def)
  show "fst (run_statement (update_retail cond setter) db)
          \<in> {Some (Raise_exception ''Quantity cannot be negative''),
             Some (Raise_exception ''Unit price cannot be negative'')}"
    using e' msg by (auto simp: run_statement_def update_retail_def update_retail_with_def)
next
  assume a: "0 \<le> q0 \<and> 0 \<le> p0"
  then have ok: "enforce_positive_values (row\<lparr>quantity := Some q0, unit_price := Some p0\<rparr>)
               = Inr (row\<lparr>quantity := Some q0, unit_price := Some p0\<rparr>)"
    by (simp add: enforce_positive_values_def sql_true_def sql_lt_def)
  show "run_statement (insert_retail [row\<lparr>quantity := Some q0, unit_price := Some p0\<rparr>]) db
            = (None, db\<lparr>retail := retail db @ [row\<lparr>quantity := Some q0, unit_price := Some p0\<rparr>]\<rparr>)"
    by (simp add: run_statement_def insert_retail_def ok)
next
  assume a: "0 \<le> q0 \<and> 0 \<le> p0"
  then have "update_retail_rows cond (\<lambda>r. Inr (r\<lparr>quantity := Some q0, unit_price := Some p0\<rparr>)) (retail db)
               = Inr (map (\<lambda>r. if cond r then r\<lparr>quantity := Some q0, unit_price := Some p0\<rparr> else r) (retail db))"
    by (intro update_retail_rows_accepts) (simp add: enforce_positive_values_def sql_true_def sql_lt_def)
  then show "run_statement (update_retail cond (\<lambda>r. r\<lparr>quantity := Some q0, unit_price := Some p0\<rparr>)) db
            = (None, db\<lparr>retail := map (\<lambda>r. if cond r then r\<lparr>quantity := Some q0, unit_price := Some p0\<rparr> else r)
                                    (retail db)\<rparr>)"
    by (simp add: run_statement_def update_retail_def update_retail_with_def)
qed

theorem positive_value_guard_witness:
  "snd (run_statement (insert_retail [\<lparr>retail_id = 2, stockcode = Some ''85123A'', quantity = Some (- 1), unit_price = Some 3\<rparr>])
          \<lparr>retail = [\<lparr>retail_id = 1, stockcode = Some ''85123A'', quantity = Some 6, unit_price = Some 3\<rparr>],
           orders = [], products = [], order_items = [], inventory_movements = []\<rparr>)
     = \<lparr>retail = [\<lparr>retail_id = 1, stockcode = Some ''85123A'', quantity = Some 6, unit_price = Some 3\<rparr>],
        orders = [], products = [], order_items = [], inventory_movements = []\<rparr>
   \<and> snd (run_statement (update_retail (\<lambda>r. retail_id r = 1) (\<lambda>r. r\<lparr>unit_price := Some (- 3)\<rparr>))
          \<lparr>retail = [\<lparr>retail_id = 1, stockcode = Some ''85123A'', quantity = Some 6, unit_price = Some 3\<rparr>],
           orders = [], products = [], order_items = [], inventory_movements = []\<rparr>)
     = \<lparr>retail = [\<lparr>retail_id = 1, stockcode = Some ''85123A'', quantity = Some 6, unit_price = Some 3\<rparr>],
        orders = [], products = [], order_items = [], inventory_movements = []\<rparr>
   \<and> run_statement (insert_retail [\<lparr>retail_id = 2, stockcode = Some ''85123A'', quantity = Some 0, unit_price = Some 0\<rparr>])
          \<lparr>retail = [\<lparr>retail_id = 1, stockcode = Some ''85123A'', quantity = Some 6, unit_price = Some 3\<rparr>],
           orders = [], products = [], order_items = [], inventory_movements = []\<rparr>
     = (None, \<lparr>retail = [\<lparr>retail_id = 1, stockcode = Some ''85123A'', quantity = Some 6, unit_price = Some 3\<rparr>,
                         \<lparr>retail_id = 2, stockcode = Some ''85123A'', quantity = Some 0, unit_price = Some 0\<rparr>],
        orders = [], products = [], order_items = [], inventory_movements = []\<rparr>)
   \<and> run_statement (update_retail (\<lambda>r. retail_id r = 1) (\<lambda>r. r\<lparr>quantity := Some 0, unit_price := Some 0\<rparr>))
          \<lparr>retail = [\<lparr>retail_id = 1, stockcode = Some ''85123A'', quantity = Some 6, unit_price = Some 3\<rparr>],
           orders = [], products = [], order_items = [], inventory_movements = []\<rparr>
     = (None, \<lparr>retail = [\<lparr>retail_id = 1, stockcode = Some ''85123A'', quantity = Some 0, unit_price = Some 0\<rparr>],
        orders = [], products = [], order_items = [], inventory_movements = []\<rparr>)"
  using positive_value_guard
    [where new = "\<lparr>retail_id = 2, stockcode = Some ''85123A'', quantity = Some (- 1), unit_price = Some 3\<rparr>"
       and news = "[\<lparr>retail_id = 2, stockcode = Some ''85123A'', quantity = Some (- 1), unit_price = Some 3\<rparr>]"
       and db = "\<lparr>retail = [\<lparr>retail_id = 1, stockcode = Some ''85123A'', quantity = Some 6, unit_price = Some 3\<rparr>],
                 orders = [], products = [], order_items = [], inventory_movements = []\<rparr>"
       and r = "\<lparr>retail_id = 1, stockcode = Some ''85123A'', quantity = Some 6, unit_price = Some 3\<rparr>"
       and cond = "\<lambda>r. retail_id r = 1"
       and setter = "\<lambda>r. r\<lparr>unit_price := Some (- 3)\<rparr>"
       and ?q0.0 = 0 and ?p0.0 = 0
       and row = "\<lparr>retail_id = 2, stockcode = Some ''85123A'', quantity = Some 6, unit_price = Some 3\<rparr>"]
  by simp

subsection \<open>The stock decrement\<close>

text \<open>
  Claim C1 speaks of the stock quantity of the product. The trigger writes the table
  \<^verbatim>\<open>retail\<close> and no other: after an order of 5 for the product 10002, the row of
  \<^verbatim>\<open>retail\<close> with that code went from 20 to 15, and the row of \<^verbatim>\<open>products\<close> with that
  identifier and that code still has \<^verbatim>\<open>stock_quantity = 20\<close>.
\<close>

theorem update_stock_products_counterexample:
  "run_statement (insert_orders \<lparr>product_id = Some ''10002'', order_quantity = Some 5\<rparr>)
     \<lparr>retail = [\<lparr>retail_id = 1, stockcode = Some ''10002'', quantity = Some 20, unit_price = Some 3\<rparr>],
      orders = [],
      products = [\<lparr>p_product_id = 10002, stock_code = ''10002'', description = ''INFLATABLE POLITICAL GLOBE'',
                   category_id = None, p_unit_price = Some 3, stock_quantity = Some 20, is_active = Some True\<rparr>],
      order_items = [], inventory_movements = []\<rparr>
   = (None,
      \<lparr>retail = [\<lparr>retail_id = 1, stockcode = Some ''10002'', quantity = Some 15, unit_price = Some 3\<rparr>],
       orders = [\<lparr>product_id = Some ''10002'', order_quantity = Some 5\<rparr>],
       products = [\<lparr>p_product_id = 10002, stock_code = ''10002'', description = ''INFLATABLE POLITICAL GLOBE'',
                    category_id = None, p_unit_price = Some 3, stock_quantity = Some 20, is_active = Some True\<rparr>],
       order_items = [], inventory_movements = []\<rparr>)"
  by (simp add: run_statement_def insert_orders_def update_stock_def update_retail_with_def
        stock_row_of_def decrement_def enforce_positive_values_def sql_true_def sql_eq_def sql_lt_def
        sql_minus_def int4_range_def)

text \<open>
  The rows the decrement changes are those whose \<^verbatim>\<open>stockcode\<close> is not \<^verbatim>\<open>NULL\<close> and
  equals the inserted \<^verbatim>\<open>product_id\<close>. For such a row with the quantity \<open>a\<close>, and the
  inserted quantity \<open>b\<close>, the difference \<open>a - b\<close> is out of the range of the column
  from \<open>2 ^ 31\<close> on, and rejected by the guard of \<^verbatim>\<open>retail\<close> below 0 (below
  \<open>- 2 ^ 31\<close> it is out of range as well); the guard also rejects a row whose unit
  price is negative.
\<close>

lemma decrement_accepted:
  assumes "\<forall>a b. quantity r = Some a \<and> order_quantity new = Some b \<longrightarrow> 0 \<le> a - b \<and> a - b < 2 ^ 31"
      and "\<forall>p. unit_price r = Some p \<longrightarrow> 0 \<le> p"
  shows "decrement new r
           = Inr (r\<lparr>quantity := (case quantity r of None \<Rightarrow> None
                                   | Some a \<Rightarrow> (case order_quantity new of None \<Rightarrow> None | Some b \<Rightarrow> Some (a - b)))\<rparr>)
       \<and> enforce_positive_values
             (r\<lparr>quantity := (case quantity r of None \<Rightarrow> None
                                | Some a \<Rightarrow> (case order_quantity new of None \<Rightarrow> None | Some b \<Rightarrow> Some (a - b)))\<rparr>)
           = Inr (r\<lparr>quantity := (case quantity r of None \<Rightarrow> None
                                   | Some a \<Rightarrow> (case order_quantity new of None \<Rightarrow> None | Some b \<Rightarrow> Some (a - b)))\<rparr>)"
  using assms
  by (auto simp: decrement_def sql_minus_def int4_range_def enforce_positive_values_def sql_true_def sql_lt_def
           split: option.splits)

lemma decrement_refused:
  assumes "(\<exists>a b. quantity r = Some a \<and> order_quantity new = Some b \<and> (a - b < 0 \<or> 2 ^ 31 \<le> a - b))
         \<or> (\<exists>p. unit_price r = Some p \<and> p < 0)"
  shows "(\<exists>e. decrement new r = Inl e)
       \<or> (\<exists>r' e. decrement new r = Inr r' \<and> enforce_positive_values r' = Inl e)"
proof (cases "decrement new r")
  case (Inl e)
  then show ?thesis by blast
next
  case (Inr r')
  then have q: "\<forall>a b. quantity r = Some a \<and> order_quantity new = Some b \<longrightarrow> quantity r' = Some (a - b) \<and> a - b < 2 ^ 31"
    and p: "unit_price r' = unit_price r"
    by (auto simp: decrement_def sql_minus_def int4_range_def split: option.splits if_splits)
  have "(\<exists>q. quantity r' = Some q \<and> q < 0) \<or> (\<exists>p. unit_price r' = Some p \<and> p < 0)"
    using assms q p by fastforce
  then obtain e where "enforce_positive_values r' = Inl e"
    using enforce_rejects_iff [of r'] by blast
  with Inr show ?thesis by blast
qed

lemma decrement_error: "decrement new r = Inl e \<Longrightarrow> e = Numeric_value_out_of_range"
  by (auto simp: decrement_def sql_minus_def split: option.splits if_splits)

text \<open>
  Claim C1, as the trigger has it. Inserting a row into \<^verbatim>\<open>orders\<close> succeeds when, in
  every row of \<^verbatim>\<open>retail\<close> whose \<^verbatim>\<open>stockcode\<close> equals the inserted \<^verbatim>\<open>product_id\<close>, the
  quantity less the inserted quantity is at least 0 and below \<open>2 ^ 31\<close> and the unit price
  is not negative. Then, in the same statement, the row is stored and \<^verbatim>\<open>quantity\<close> is
  lowered by exactly the inserted quantity in each of those rows; the other rows of
  \<^verbatim>\<open>retail\<close> and all other tables, \<^verbatim>\<open>products\<close> included, stay as they were. When one
  of those rows fails the condition, the statement is aborted, with the error of the
  subtraction or with an exception of the guard, and the database is what it was before:
  no order is stored and no quantity is lowered.
\<close>

theorem update_stock_decrements_retail:
  fixes db :: database
  shows
    "((\<forall>r \<in> set (retail db). stockcode r \<noteq> None \<and> stockcode r = product_id new \<longrightarrow>
          (\<forall>a b. quantity r = Some a \<and> order_quantity new = Some b \<longrightarrow> 0 \<le> a - b \<and> a - b < 2 ^ 31)
        \<and> (\<forall>p. unit_price r = Some p \<longrightarrow> 0 \<le> p))
      \<longrightarrow> run_statement (insert_orders new) db =
            (None, db\<lparr>orders := orders db @ [new],
                      retail := map (\<lambda>r. if stockcode r \<noteq> None \<and> stockcode r = product_id new
                                          then r\<lparr>quantity :=
                                                  (case quantity r of
                                                     None \<Rightarrow> None
                                                   | Some a \<Rightarrow>
                                                       (case order_quantity new of
                                                          None \<Rightarrow> None
                                                        | Some b \<Rightarrow> Some (a - b)))\<rparr>
                                          else r) (retail db)\<rparr>))
   \<and> ((\<exists>r \<in> set (retail db). stockcode r \<noteq> None \<and> stockcode r = product_id new
          \<and> ((\<exists>a b. quantity r = Some a \<and> order_quantity new = Some b \<and> (a - b < 0 \<or> 2 ^ 31 \<le> a - b))
               \<or> (\<exists>p. unit_price r = Some p \<and> p < 0)))
      \<longrightarrow> (\<exists>e \<in> {Numeric_value_out_of_range,
                 Raise_exception ''Quantity cannot be negative'',
                 Raise_exception ''Unit price cannot be negative''}.
            run_statement (insert_orders new) db = (Some e, db)))"
proof (intro conjI impI)
  let ?g = "\<lambda>r. r\<lparr>quantity := (case quantity r of None \<Rightarrow> None
                                  | Some a \<Rightarrow> (case order_quantity new of None \<Rightarrow> None | Some b \<Rightarrow> Some (a - b)))\<rparr>"
  assume h: "\<forall>r \<in> set (retail db). stockcode r \<noteq> None \<and> stockcode r = product_id new \<longrightarrow>
          (\<forall>a b. quantity r = Some a \<and> order_quantity new = Some b \<longrightarrow> 0 \<le> a - b \<and> a - b < 2 ^ 31)
        \<and> (\<forall>p. unit_price r = Some p \<longrightarrow> 0 \<le> p)"
  have ok: "\<forall>r \<in> set (retail db). stock_row_of new r \<longrightarrow>
              decrement new r = Inr (?g r) \<and> enforce_positive_values (?g r) = Inr (?g r)"
  proof (intro ballI impI)
    fix r assume "r \<in> set (retail db)" "stock_row_of new r"
    then have "(\<forall>a b. quantity r = Some a \<and> order_quantity new = Some b \<longrightarrow> 0 \<le> a - b \<and> a - b < 2 ^ 31)"
      and "(\<forall>p. unit_price r = Some p \<longrightarrow> 0 \<le> p)"
      using h by (simp_all only: stock_row_of_iff) blast+
    then show "decrement new r = Inr (?g r) \<and> enforce_positive_values (?g r) = Inr (?g r)"
      by (rule decrement_accepted)
  qed
  have c: "(\<lambda>r. if stock_row_of new r then ?g r else r)
             = (\<lambda>r. if stockcode r \<noteq> None \<and> stockcode r = product_id new then ?g r else r)"
    by (simp only: stock_row_of_iff)
  have "update_retail_rows (stock_row_of new) (decrement new) (retail db)
          = Inr (map (\<lambda>r. if stock_row_of new r then ?g r else r) (retail db))"
    using ok by (rule update_retail_rows_accepts)
  then show "run_statement (insert_orders new) db =
            (None, db\<lparr>orders := orders db @ [new],
                      retail := map (\<lambda>r. if stockcode r \<noteq> None \<and> stockcode r = product_id new
                                          then ?g r else r) (retail db)\<rparr>)"
    by (simp add: run_statement_def insert_orders_def update_stock_def update_retail_with_def c)
next
  assume "\<exists>r \<in> set (retail db). stockcode r \<noteq> None \<and> stockcode r = product_id new
          \<and> ((\<exists>a b. quantity r = Some a \<and> order_quantity new = Some b \<and> (a - b < 0 \<or> 2 ^ 31 \<le> a - b))
               \<or> (\<exists>p. unit_price r = Some p \<and> p < 0))"
  then obtain r where r: "r \<in> set (retail db)" "stock_row_of new r"
      and bad: "(\<exists>a b. quantity r = Some a \<and> order_quantity new = Some b \<and> (a - b < 0 \<or> 2 ^ 31 \<le> a - b))
               \<or> (\<exists>p. unit_price r = Some p \<and> p < 0)"
    unfolding stock_row_of_iff by blast
  obtain e' where e': "update_retail_rows (stock_row_of new) (decrement new) (retail db) = Inl e'"
    using update_retail_rows_rejects [of r "retail db" "stock_row_of new" "decrement new"] r
      decrement_refused [OF bad]
    by blast
  from update_retail_rows_error [OF e'] obtain x :: retail_row
    where "decrement new x = Inl e' \<or> (\<exists>r'. enforce_positive_values r' = Inl e')"
    by blast
  then have "e' \<in> {Numeric_value_out_of_range,
                 Raise_exception ''Quantity cannot be negative'',
                 Raise_exception ''Unit price cannot be negative''}"
    using decrement_error enforce_error_messages by blast
  moreover have "run_statement (insert_orders new) db = (Some e', db)"
    using e' by (simp add: run_statement_def insert_orders_def update_stock_def update_retail_with_def)
  ultimately show "\<exists>e \<in> {Numeric_value_out_of_range,
                 Raise_exception ''Quantity cannot be negative'',
                 Raise_exception ''Unit price cannot be negative''}.
            run_statement (insert_orders new) db = (Some e, db)"
    by blast
qed

theorem update_stock_decrements_retail_witness:
  "run_statement (insert_orders \<lparr>product_id = Some ''85123A'', order_quantity = Some 5\<rparr>)
       \<lparr>retail = [\<lparr>retail_id = 1, stockcode = Some ''85123A'', quantity = Some 20, unit_price = Some 3\<rparr>,
                  \<lparr>retail_id = 2, stockcode = Some ''71053'', quantity = Some 8, unit_price = Some 4\<rparr>],
        orders = [], products = [], order_items = [], inventory_movements = []\<rparr>
     = (None,
        \<lparr>retail = [\<lparr>retail_id = 1, stockcode = Some ''85123A'', quantity = Some 15, unit_price = Some 3\<rparr>,
                   \<lparr>retail_id = 2, stockcode = Some ''71053'', quantity = Some 8, unit_price = Some 4\<rparr>],
         orders = [\<lparr>product_id = Some ''85123A'', order_quantity = Some 5\<rparr>],
         products = [], order_items = [], inventory_movements = []\<rparr>)
   \<and> run_statement (insert_orders \<lparr>product_id = Some ''85123A'', order_quantity = Some (- 1)\<rparr>)
       \<lparr>retail = [\<lparr>retail_id = 1, stockcode = Some ''85123A'', quantity = Some 2147483647, unit_price = Some 3\<rparr>],
        orders = [], products = [], order_items = [], inventory_movements = []\<rparr>
     = (Some Numeric_value_out_of_range,
        \<lparr>retail = [\<lparr>retail_id = 1, stockcode = Some ''85123A'', quantity = Some 2147483647, unit_price = Some 3\<rparr>],
         orders = [], products = [], order_items = [], inventory_movements = []\<rparr>)
   \<and> run_statement (insert_orders \<lparr>product_id = Some ''85123A'', order_quantity = Some 21\<rparr>)
       \<lparr>retail = [\<lparr>retail_id = 1, stockcode = Some ''85123A'', quantity = Some 20, unit_price = Some 3\<rparr>],
        orders = [], products = [], order_items = [], inventory_movements = []\<rparr>
     = (Some (Raise_exception ''Quantity cannot be negative''),
        \<lparr>retail = [\<lparr>retail_id = 1, stockcode = Some ''85123A'', quantity = Some 20, unit_price = Some 3\<rparr>],
         orders = [], products = [], order_items = [], inventory_movements = []\<rparr>)"
proof -
  have a: "run_statement (insert_orders \<lparr>product_id = Some ''85123A'', order_quantity = Some 5\<rparr>)
       \<lparr>retail = [\<lparr>retail_id = 1, stockcode = Some ''85123A'', quantity = Some 20, unit_price = Some 3\<rparr>,
                  \<lparr>retail_id = 2, stockcode = Some ''71053'', quantity = Some 8, unit_price = Some 4\<rparr>],
        orders = [], products = [], order_items = [], inventory_movements = []\<rparr>
     = (None,
        \<lparr>retail = [\<lparr>retail_id = 1, stockcode = Some ''85123A'', quantity = Some 15, unit_price = Some 3\<rparr>,
                   \<lparr>retail_id = 2, stockcode = Some ''71053'', quantity = Some 8, unit_price = Some 4\<rparr>],
         orders = [\<lparr>product_id = Some ''85123A'', order_quantity = Some 5\<rparr>],
         products = [], order_items = [], inventory_movements = []\<rparr>)"
    using update_stock_decrements_retail
      [of "\<lparr>retail = [\<lparr>retail_id = 1, stockcode = Some ''85123A'', quantity = Some 20, unit_price = Some 3\<rparr>,
                  \<lparr>retail_id = 2, stockcode = Some ''71053'', quantity = Some 8, unit_price = Some 4\<rparr>],
        orders = [], products = [], order_items = [], inventory_movements = []\<rparr>"
          "\<lparr>product_id = Some ''85123A'', order_quantity = Some 5\<rparr>"]
    by simp
  have b: "\<exists>e. run_statement (insert_orders \<lparr>product_id = Some ''85123A'', order_quantity = Some (- 1)\<rparr>)
       \<lparr>retail = [\<lparr>retail_id = 1, stockcode = Some ''85123A'', quantity = Some 2147483647, unit_price = Some 3\<rparr>],
        orders = [], products = [], order_items = [], inventory_movements = []\<rparr>
     = (Some e,
        \<lparr>retail = [\<lparr>retail_id = 1, stockcode = Some ''85123A'', quantity = Some 2147483647, unit_price = Some 3\<rparr>],
         orders = [], products = [], order_items = [], inventory_movements = []\<rparr>)"
    using update_stock_decrements_retail
      [of "\<lparr>retail = [\<lparr>retail_id = 1, stockcode = Some ''85123A'', quantity = Some 2147483647, unit_price = Some 3\<rparr>],
        orders = [], products = [], order_items = [], inventory_movements = []\<rparr>"
          "\<lparr>product_id = Some ''85123A'', order_quantity = Some (- 1)\<rparr>"]
    by auto
  have c: "\<exists>e. run_statement (insert_orders \<lparr>product_id = Some ''85123A'', order_quantity = Some 21\<rparr>)
       \<lparr>retail = [\<lparr>retail_id = 1, stockcode = Some ''85123A'', quantity = Some 20, unit_price = Some 3\<rparr>],
        orders = [], products = [], order_items = [], inventory_movements = []\<rparr>
     = (Some e,
        \<lparr>retail = [\<lparr>retail_id = 1, stockcode = Some ''85123A'', quantity = Some 20, unit_price = Some 3\<rparr>],
         orders = [], products = [], order_items = [], inventory_movements = []\<rparr>)"
    using update_stock_decrements_retail
      [of "\<lparr>retail = [\<lparr>retail_id = 1, stockcode = Some ''85123A'', quantity = Some 20, unit_price = Some 3\<rparr>],
        orders = [], products = [], order_items = [], inventory_movements = []\<rparr>"
          "\<lparr>product_id = Some ''85123A'', order_quantity = Some 21\<rparr>"]
    by auto
  show ?thesis
    using a b c
    by (simp add: run_statement_def insert_orders_def update_stock_def update_retail_with_def
          stock_row_of_def decrement_def enforce_positive_values_def sql_true_def sql_eq_def sql_lt_def
          sql_minus_def int4_range_def)
qed

subsection \<open>An order for a code that no row carries\<close>

text \<open>
  Claim C3 asks for an abort when no row matches. The trigger has no such check: an update
  that selects no row is not an error, so the order for the code NOSUCH below is stored,
  nothing is decremented and no error is raised.
\<close>

theorem update_stock_silent_skip_counterexample:
  "run_statement (insert_orders \<lparr>product_id = Some ''NOSUCH'', order_quantity = Some 5\<rparr>)
     \<lparr>retail = [\<lparr>retail_id = 1, stockcode = Some ''85123A'', quantity = Some 20, unit_price = Some 3\<rparr>],
      orders = [],
      products = [\<lparr>p_product_id = 1, stock_code = ''85123A'', description = ''HEART T-LIGHT HOLDER'',
                   category_id = None, p_unit_price = Some 3, stock_quantity = Some 20, is_active = Some True\<rparr>],
      order_items = [], inventory_movements = []\<rparr>
   = (None,
      \<lparr>retail = [\<lparr>retail_id = 1, stockcode = Some ''85123A'', quantity = Some 20, unit_price = Some 3\<rparr>],
       orders = [\<lparr>product_id = Some ''NOSUCH'', order_quantity = Some 5\<rparr>],
       products = [\<lparr>p_product_id = 1, stock_code = ''85123A'', description = ''HEART T-LIGHT HOLDER'',
                    category_id = None, p_unit_price = Some 3, stock_quantity = Some 20, is_active = Some True\<rparr>],
       order_items = [], inventory_movements = []\<rparr>)"
  by (simp add: run_statement_def insert_orders_def update_stock_def update_retail_with_def
        stock_row_of_def sql_true_def sql_eq_def)

text \<open>
  Claim C3, as the trigger has it. When no row of \<^verbatim>\<open>retail\<close> carries the inserted
  \<^verbatim>\<open>product_id\<close> (or that column is \<^verbatim>\<open>NULL\<close>), the insert into \<^verbatim>\<open>orders\<close> succeeds
  without an error: the row is stored and every table other than \<^verbatim>\<open>orders\<close> is unchanged.
\<close>

theorem update_stock_no_matching_row:
  assumes "\<forall>r \<in> set (retail db). stockcode r \<noteq> product_id new \<or> product_id new = None"
  shows "run_statement (insert_orders new) db = (None, db\<lparr>orders := orders db @ [new]\<rparr>)"
proof -
  have "\<forall>r \<in> set (retail db). \<not> stock_row_of new r"
    using assms by (auto simp: stock_row_of_def sql_true_def sql_eq_def split: option.splits)
  then have "update_retail_rows (stock_row_of new) (decrement new) (retail db) = Inr (retail db)"
    by (rule update_retail_rows_no_match)
  then show ?thesis
    by (simp add: run_statement_def insert_orders_def update_stock_def update_retail_with_def)
qed

theorem update_stock_no_matching_row_witness:
  "run_statement (insert_orders \<lparr>product_id = Some ''NOSUCH'', order_quantity = Some 5\<rparr>)
       \<lparr>retail = [\<lparr>retail_id = 1, stockcode = Some ''85123A'', quantity = Some 20, unit_price = Some 3\<rparr>],
        orders = [], products = [], order_items = [], inventory_movements = []\<rparr>
     = (None,
        \<lparr>retail = [\<lparr>retail_id = 1, stockcode = Some ''85123A'', quantity = Some 20, unit_price = Some 3\<rparr>],
         orders = [\<lparr>product_id = Some ''NOSUCH'', order_quantity = Some 5\<rparr>],
         products = [], order_items = [], inventory_movements = []\<rparr>)"
  using update_stock_no_matching_row
    [where new = "\<lparr>product_id = Some ''NOSUCH'', order_quantity = Some 5\<rparr>"
       and db = "\<lparr>retail = [\<lparr>retail_id = 1, stockcode = Some ''85123A'', quantity = Some 20, unit_price = Some 3\<rparr>],
        orders = [], products = [], order_items = [], inventory_movements = []\<rparr>"]
  by simp

section \<open>Properties of the product API\<close>

subsection \<open>The error taxonomy\<close>

text \<open>
  Claim C8. \<open>handleDatabaseError\<close> answers a unique-key violation (code 23505) with 409,
  a foreign-key violation (23503) and a check-constraint violation (23514) with 400, each
  with a fixed text, and every other failure with 500; the message of the failure itself
  is in the 500 response when \<^verbatim>\<open>NODE_ENV\<close> is \<^verbatim>\<open>development\<close> and is replaced by a
  fixed text otherwise.
\<close>

theorem handleDatabaseError_taxonomy:
  "(err_code error = Some ''23505'' \<longrightarrow>
      handleDatabaseError node_env error
        = \<lparr>status = 409, body = JObj [(''error'', JStr ''Product with this stock_code already exists'')]\<rparr>)
   \<and> (err_code error = Some ''23503'' \<longrightarrow>
      handleDatabaseError node_env error
        = \<lparr>status = 400, body = JObj [(''error'', JStr ''Referenced record does not exist'')]\<rparr>)
   \<and> (err_code error = Some ''23514'' \<longrightarrow>
      handleDatabaseError node_env error
        = \<lparr>status = 400, body = JObj [(''error'',
             JStr ''Data violates database constraints (e.g., negative stock or zero price)'')]\<rparr>)
   \<and> (err_code error \<notin> {Some ''23505'', Some ''23503'', Some ''23514''} \<longrightarrow>
      handleDatabaseError node_env error
        = \<lparr>status = 500, body = JObj [(''error'', JStr ''Internal server error''),
             (''message'', JStr (if node_env = Some ''development'' then err_message error
                                 else ''Database operation failed''))]\<rparr>)"
  by (simp add: handleDatabaseError_def status_json_def)

theorem handleDatabaseError_taxonomy_witness:
  "handleDatabaseError (Some ''production'') \<lparr>err_code = Some ''23505'', err_message = ''duplicate key value''\<rparr>
     = \<lparr>status = 409, body = JObj [(''error'', JStr ''Product with this stock_code already exists'')]\<rparr>
   \<and> handleDatabaseError (Some ''production'') \<lparr>err_code = Some ''23503'', err_message = ''violates foreign key''\<rparr>
     = \<lparr>status = 400, body = JObj [(''error'', JStr ''Referenced record does not exist'')]\<rparr>
   \<and> handleDatabaseError (Some ''production'') \<lparr>err_code = Some ''23514'', err_message = ''violates check''\<rparr>
     = \<lparr>status = 400, body = JObj [(''error'',
             JStr ''Data violates database constraints (e.g., negative stock or zero price)'')]\<rparr>
   \<and> handleDatabaseError (Some ''production'') \<lparr>err_code = Some ''22P02'', err_message = ''invalid input syntax''\<rparr>
     = \<lparr>status = 500, body = JObj [(''error'', JStr ''Internal server error''),
             (''message'', JStr ''Database operation failed'')]\<rparr>
   \<and> handleDatabaseError (Some ''development'') \<lparr>err_code = None, err_message = ''x is not a function''\<rparr>
     = \<lparr>status = 500, body = JObj [(''error'', JStr ''Internal server error''),
             (''message'', JStr ''x is not a function'')]\<rparr>"
  using handleDatabaseError_taxonomy [of "\<lparr>err_code = Some ''23505'', err_message = ''duplicate key value''\<rparr>" "Some ''production''"]
        handleDatabaseError_taxonomy [of "\<lparr>err_code = Some ''23503'', err_message = ''violates foreign key''\<rparr>" "Some ''production''"]
        handleDatabaseError_taxonomy [of "\<lparr>err_code = Some ''23514'', err_message = ''violates check''\<rparr>" "Some ''production''"]
        handleDatabaseError_taxonomy [of "\<lparr>err_code = Some ''22P02'', err_message = ''invalid input syntax''\<rparr>" "Some ''production''"]
        handleDatabaseError_taxonomy [of "\<lparr>err_code = None, err_message = ''x is not a function''\<rparr>" "Some ''development''"]
  by simp

subsection \<open>The retail listing\<close>

text \<open>
  Claim C10. \<^verbatim>\<open>GET /api/retail\<close> answers with the first hundred rows of the table at
  most, however many rows there are, and its answer does not depend on the query string.
\<close>

theorem get_retail_at_most_100:
  "get_retail q db = \<lparr>status = 200, body = JArr (map Retail_row (take 100 (retail db)))\<rparr>
   \<and> length (take 100 (retail db)) \<le> 100
   \<and> get_retail q db = get_retail q' db"
  by (simp add: get_retail_def select_retail_limit_100_def json_def)

subsection \<open>Validation of a product\<close>

text \<open>
  Claim C4 has a request rejected with a 400, before any query, when its \<^verbatim>\<open>unit_price\<close>
  is present and is not a number greater than 0. The validation sets out to do so: its
  answer reads \<^verbatim>\<open>unit_price must be a positive number\<close>, and the test of \<^verbatim>\<open>stock_code\<close>
  two lines above asks for the type of the value. The test of the price,
  \<^verbatim>\<open>isNaN(unit_price) || unit_price <= 0\<close>, converts its argument instead: \<^verbatim>\<open>true\<close>,
  which is no number, converts to 1. For the body below the validation calls \<^verbatim>\<open>next\<close>,
  and the request is answered by the handler registered after it, which starts with its
  query.
\<close>

theorem validateProduct_boolean_price:
  "validateProduct [(''stock_code'', JStr ''85123A''), (''description'', JStr ''HEART T-LIGHT HOLDER''),
                    (''unit_price'', JBool True)] = Next
   \<and> validated_route node_env handler
         [(''stock_code'', JStr ''85123A''), (''description'', JStr ''HEART T-LIGHT HOLDER''),
          (''unit_price'', JBool True)] db
       = handler [(''stock_code'', JStr ''85123A''), (''description'', JStr ''HEART T-LIGHT HOLDER''),
                  (''unit_price'', JBool True)] db"
  by (simp add: validated_route_def validateProduct_def get_prop_def to_number_def num_le_def)

theorem validateProduct_boolean_price_witness:
  "validated_route None (\<lambda>b d. (\<lparr>status = 201, body = JNull\<rparr>, d, 1))
      [(''stock_code'', JStr ''85123A''), (''description'', JStr ''HEART T-LIGHT HOLDER''),
       (''unit_price'', JBool True)]
      \<lparr>retail = [], orders = [], products = [], order_items = [], inventory_movements = []\<rparr>
   = (\<lparr>status = 201, body = JNull\<rparr>,
      \<lparr>retail = [], orders = [], products = [], order_items = [], inventory_movements = []\<rparr>, 1)"
  using validateProduct_boolean_price
    [of None "\<lambda>b d. (\<lparr>status = 201, body = JNull\<rparr>, d, 1)"
        "\<lparr>retail = [], orders = [], products = [], order_items = [], inventory_movements = []\<rparr>"]
  by simp

text \<open>
  What the validation does refuse: when \<^verbatim>\<open>stock_code\<close> or \<^verbatim>\<open>description\<close> is missing,
  or \<^verbatim>\<open>stock_code\<close> is not a string of at most 20 characters, or \<^verbatim>\<open>unit_price\<close> is
  present and converts to \<^verbatim>\<open>NaN\<close> or to a number that is not greater than 0 (so for
  every JSON number that is not greater than 0), the answer is a 400 and the handler does
  not run: the database is untouched and no query is issued.
\<close>

lemma validateProduct_rejects:
  assumes "get_prop req_body ''stock_code'' = JUndefined
         \<or> get_prop req_body ''description'' = JUndefined
         \<or> (\<nexists>s. get_prop req_body ''stock_code'' = JStr s \<and> length s \<le> 20)
         \<or> (get_prop req_body ''unit_price'' \<noteq> JUndefined
              \<and> (to_number (get_prop req_body ''unit_price'') = Inr NaN
                   \<or> (\<exists>n. to_number (get_prop req_body ''unit_price'') = Inr n \<and> num_le n (Fin 0))))"
  shows "status (fst (validated_route node_env handler req_body db)) = 400
       \<and> snd (validated_route node_env handler req_body db) = (db, 0)"
proof -
  have "\<exists>r. validateProduct req_body = Respond r \<and> status r = 400"
    using assms
    by (cases "get_prop req_body ''stock_code''")
       (auto simp: validateProduct_def Let_def status_json_def)
  then show ?thesis
    by (auto simp: validated_route_def)
qed

text \<open>
  A \<^verbatim>\<open>unit_price\<close> that cannot be converted makes the validation throw, and the request
  ends in the 500 of the error handler, without a query.
\<close>

lemma validateProduct_throws:
  "validated_route node_env handler
     [(''stock_code'', JStr ''85123A''), (''description'', JStr ''HEART T-LIGHT HOLDER''),
      (''unit_price'', JObj [(''toString'', JNum (Fin 1))])] db
   = (global_error_handler node_env (type_error ''Cannot convert object to primitive value''), db, 0)"
  by (simp add: validated_route_def validateProduct_def get_prop_def to_number_def)

subsection \<open>The single-product lookup\<close>

lemma isNumeric_42: "isNumeric ''42''"
  by code_simp

lemma not_isNumeric_ABC123: "\<not> isNumeric ''ABC123''"
  by code_simp

lemma parseInt_42: "parseInt ''42'' = Fin 42"
  by code_simp

lemma pg_integer_42: "pg_integer 32 (P_num (Fin 42)) = Some 42"
  by (simp add: pg_integer_def)

text \<open>
  Claim C9. An identifier is numeric when \<^verbatim>\<open>Number\<close> and \<^verbatim>\<open>parseFloat\<close> both read a
  number from it. A numeric identifier is searched in \<^verbatim>\<open>product_id\<close>, with the integer
  \<^verbatim>\<open>parseInt\<close> reads from it, and any other identifier in \<^verbatim>\<open>stock_code\<close>, as it is:
  \<^verbatim>\<open>ABC123\<close> is looked up as a stock code and \<^verbatim>\<open>42\<close> as the product id 42.
\<close>

theorem find_product_classification:
  "(\<not> isNumeric ident \<longrightarrow>
       searchField ident = ''stock_code''
     \<and> find_product ident db = Inr (filter (\<lambda>p. stock_code p = ident) (products db)))
   \<and> (isNumeric ident \<longrightarrow>
       searchField ident = ''product_id''
     \<and> (pg_integer 32 (P_num (parseInt ident)) = Some n \<longrightarrow>
          find_product ident db = Inr (filter (\<lambda>p. p_product_id p = n) (products db))))
   \<and> \<not> isNumeric ''ABC123''
   \<and> find_product ''ABC123'' db = Inr (filter (\<lambda>p. stock_code p = ''ABC123'') (products db))
   \<and> isNumeric ''42''
   \<and> find_product ''42'' db = Inr (filter (\<lambda>p. p_product_id p = 42) (products db))"
  by (simp add: find_product_def searchField_def searchValue_def products_where_def pg_text_def
        isNumeric_42 not_isNumeric_ABC123 parseInt_42 pg_integer_42)

theorem find_product_classification_witness:
  "find_product ''85123A''
     \<lparr>retail = [], orders = [],
      products = [\<lparr>p_product_id = 7, stock_code = ''85123A'', description = ''HEART T-LIGHT HOLDER'',
                   category_id = None, p_unit_price = Some 3, stock_quantity = Some 20, is_active = Some True\<rparr>],
      order_items = [], inventory_movements = []\<rparr>
   = Inr [\<lparr>p_product_id = 7, stock_code = ''85123A'', description = ''HEART T-LIGHT HOLDER'',
                   category_id = None, p_unit_price = Some 3, stock_quantity = Some 20, is_active = Some True\<rparr>]
   \<and> find_product ''7''
     \<lparr>retail = [], orders = [],
      products = [\<lparr>p_product_id = 7, stock_code = ''85123A'', description = ''HEART T-LIGHT HOLDER'',
                   category_id = None, p_unit_price = Some 3, stock_quantity = Some 20, is_active = Some True\<rparr>],
      order_items = [], inventory_movements = []\<rparr>
   = Inr [\<lparr>p_product_id = 7, stock_code = ''85123A'', description = ''HEART T-LIGHT HOLDER'',
                   category_id = None, p_unit_price = Some 3, stock_quantity = Some 20, is_active = Some True\<rparr>]"
proof -
  have a: "\<not> isNumeric ''85123A''" by code_simp
  have b: "isNumeric ''7''" by code_simp
  have c: "pg_integer 32 (P_num (parseInt ''7'')) = Some 7" by code_simp
  show ?thesis
    using a b c
      find_product_classification [where ident = "''85123A''" and
        db = "\<lparr>retail = [], orders = [],
      products = [\<lparr>p_product_id = 7, stock_code = ''85123A'', description = ''HEART T-LIGHT HOLDER'',
                   category_id = None, p_unit_price = Some 3, stock_quantity = Some 20, is_active = Some True\<rparr>],
      order_items = [], inventory_movements = []\<rparr>"]
      find_product_classification [where ident = "''7''" and n = 7 and
        db = "\<lparr>retail = [], orders = [],
      products = [\<lparr>p_product_id = 7, stock_code = ''85123A'', description = ''HEART T-LIGHT HOLDER'',
                   category_id = None, p_unit_price = Some 3, stock_quantity = Some 20, is_active = Some True\<rparr>],
      order_items = [], inventory_movements = []\<rparr>"]
    by simp
qed

subsection \<open>The sort parameters\<close>

lemma sortColumn_default: "sortColumn (Some (QStr ''stock_code'')) = ''stock_code''"
  by (simp add: sortColumn_def dflt_def array_includes_def validSortColumns_def)

lemma sortColumn_fallback: "\<not> array_includes validSortColumns v \<Longrightarrow> sortColumn (Some v) = ''stock_code''"
  by (simp add: sortColumn_def dflt_def)

lemma sortOrderValue_ASC: "sortOrderValue (Some (QStr ''ASC'')) = Inr ''ASC''"
  by (simp add: sortOrderValue_def dflt_def toUpperCase_def validSortOrders_def)

lemma sortOrderValue_fallback:
  "toUpperCase s \<notin> set validSortOrders \<Longrightarrow> sortOrderValue (Some (QStr s)) = Inr ''ASC''"
  by (simp add: sortOrderValue_def dflt_def)

text \<open>
  Claim C5 has every request with an unknown \<^verbatim>\<open>sort_by\<close> sorted by the default column
  ascending. The column and the direction fall back separately: with
  \<^verbatim>\<open>sort_by=bogus&sort_order=DESC\<close> the query orders by \<^verbatim>\<open>stock_code DESC\<close>.
\<close>

theorem sort_fallback_counterexample:
  "build_query [(''sort_by'', QStr ''bogus''), (''sort_order'', QStr ''DESC'')]
     = Inr (\<lparr>where_clause = [], order_column = ''stock_code'', order_direction = ''DESC'',
             limit_placeholder = 1, offset_placeholder = 2\<rparr>,
            [P_num (Fin 10), P_num (Fin 0)])"
  by (simp add: build_query_def sortColumn_def sortOrderValue_def dflt_def array_includes_def
        validSortColumns_def validSortOrders_def toUpperCase_def add_search_def add_category_def
        add_active_def whereClause_def limit_param_def number_of_def num_sub_def)

text \<open>
  A \<^verbatim>\<open>sort_order\<close> that is an array (\<^verbatim>\<open>?sort_order=ASC&sort_order=DESC\<close>) has no
  \<^verbatim>\<open>toUpperCase\<close>. An exception thrown while the query is built has no \<^verbatim>\<open>code\<close>, and
  the \<^verbatim>\<open>catch\<close> block answers it with a 500.
\<close>

lemma build_query_throws:
  "build_query q = Inl error \<Longrightarrow> err_code error = None"
  by (auto simp: build_query_def number_of_def q_to_number_def q_to_string_def sortOrderValue_def
        add_search_def type_error_def split: sum.splits option.splits qval.splits if_splits prod.splits)

lemma sort_order_not_a_string:
  "status (get_products node_env eng ((''sort_order'', QArr vs) # q) db) = 500"
proof -
  have "\<exists>error. build_query ((''sort_order'', QArr vs) # q) = Inl error"
    by (auto simp: build_query_def sortOrderValue_def dflt_def split: sum.splits)
  then obtain error where e: "build_query ((''sort_order'', QArr vs) # q) = Inl error" by blast
  have "err_code error = None" using e by (rule build_query_throws)
  then show ?thesis
    by (simp add: get_products_def e handleDatabaseError_def status_json_def)
qed

text \<open>
  Claim C5, as the code has it. A \<^verbatim>\<open>sort_by\<close> outside the allow-list gives the column
  \<^verbatim>\<open>stock_code\<close>, and the request is answered as the same request with
  \<^verbatim>\<open>sort_by=stock_code\<close> is, so the unknown column is no cause of an error; the direction
  remains the one \<^verbatim>\<open>sort_order\<close> gives. A \<^verbatim>\<open>sort_order\<close> string whose upper-case form
  is neither \<^verbatim>\<open>ASC\<close> nor \<^verbatim>\<open>DESC\<close> gives the direction \<^verbatim>\<open>ASC\<close>, and the request is
  answered as with \<^verbatim>\<open>sort_order=ASC\<close>.
\<close>

theorem sort_fallback:
  "(map_of q ''sort_by'' = Some v \<and> \<not> array_includes validSortColumns v \<longrightarrow>
       sortColumn (map_of q ''sort_by'') = ''stock_code''
     \<and> build_query q = build_query ((''sort_by'', QStr ''stock_code'') # q)
     \<and> get_products node_env eng q db
         = get_products node_env eng ((''sort_by'', QStr ''stock_code'') # q) db)
   \<and> (map_of q ''sort_order'' = Some (QStr s) \<and> toUpperCase s \<notin> set validSortOrders \<longrightarrow>
       sortOrderValue (map_of q ''sort_order'') = Inr ''ASC''
     \<and> build_query q = build_query ((''sort_order'', QStr ''ASC'') # q)
     \<and> get_products node_env eng q db
         = get_products node_env eng ((''sort_order'', QStr ''ASC'') # q) db)"
proof (intro conjI impI)
  assume a: "map_of q ''sort_by'' = Some v \<and> \<not> array_includes validSortColumns v"
  then show c: "sortColumn (map_of q ''sort_by'') = ''stock_code''"
    by (simp add: sortColumn_fallback)
  show b: "build_query q = build_query ((''sort_by'', QStr ''stock_code'') # q)"
    using c by (simp add: build_query_def sortColumn_default Let_def cong: sum.case_cong prod.case_cong)
  show "get_products node_env eng q db
         = get_products node_env eng ((''sort_by'', QStr ''stock_code'') # q) db"
    by (simp add: get_products_def b [symmetric] pagination_def cong: sum.case_cong prod.case_cong)
next
  assume a: "map_of q ''sort_order'' = Some (QStr s) \<and> toUpperCase s \<notin> set validSortOrders"
  then show c: "sortOrderValue (map_of q ''sort_order'') = Inr ''ASC''"
    by (simp add: sortOrderValue_fallback)
  show b: "build_query q = build_query ((''sort_order'', QStr ''ASC'') # q)"
    using c by (simp add: build_query_def sortOrderValue_ASC Let_def cong: sum.case_cong prod.case_cong)
  show "get_products node_env eng q db
         = get_products node_env eng ((''sort_order'', QStr ''ASC'') # q) db"
    by (simp add: get_products_def b [symmetric] pagination_def cong: sum.case_cong prod.case_cong)
qed

theorem sort_fallback_witness:
  "sortColumn (map_of [(''sort_by'', QStr ''price''), (''sort_order'', QStr ''upwards'')] ''sort_by'') = ''stock_code''
   \<and> sortOrderValue (map_of [(''sort_by'', QStr ''price''), (''sort_order'', QStr ''upwards'')] ''sort_order'') = Inr ''ASC''
   \<and> build_query [(''sort_by'', QStr ''price''), (''sort_order'', QStr ''upwards'')]
       = build_query [(''sort_by'', QStr ''stock_code''), (''sort_by'', QStr ''price''), (''sort_order'', QStr ''upwards'')]
   \<and> build_query [(''sort_by'', QStr ''price''), (''sort_order'', QStr ''upwards'')]
       = build_query [(''sort_order'', QStr ''ASC''), (''sort_by'', QStr ''price''), (''sort_order'', QStr ''upwards'')]"
proof -
  have a: "map_of [(''sort_by'', QStr ''price''), (''sort_order'', QStr ''upwards'')] ''sort_by'' = Some (QStr ''price'')
           \<and> \<not> array_includes validSortColumns (QStr ''price'')"
    by (simp add: array_includes_def validSortColumns_def)
  have b: "map_of [(''sort_by'', QStr ''price''), (''sort_order'', QStr ''upwards'')] ''sort_order'' = Some (QStr ''upwards'')
           \<and> toUpperCase ''upwards'' \<notin> set validSortOrders"
    by (simp add: toUpperCase_def validSortOrders_def)
  show ?thesis
    using a b sort_fallback [where q = "[(''sort_by'', QStr ''price''), (''sort_order'', QStr ''upwards'')]"
                         and v = "QStr ''price''" and s = "''upwards''"]
    by blast
qed

subsection \<open>Decimal numerals\<close>

text \<open>
  On a string of decimal digits, \<^verbatim>\<open>Number\<close>, \<^verbatim>\<open>parseInt\<close> and the integer input of the
  server read the same natural number, and \<open>show_nat\<close> writes the numeral they read back.
\<close>

lemma is_digit_iff: "is_digit c \<longleftrightarrow> 48 \<le> (of_char c :: nat) \<and> (of_char c :: nat) \<le> 57"
  by (auto simp: is_digit_def is_radix_digit_def digit_of_def Let_def)

lemma is_digit_not_ws: "is_digit c \<Longrightarrow> \<not> is_ws c"
  by (auto simp: is_ws_def is_digit_iff)

lemma is_digit_not_sign: "is_digit c \<Longrightarrow> c \<noteq> CHR ''-'' \<and> c \<noteq> CHR ''+''"
  by (auto simp: is_digit_iff)

lemma is_digit_not_prefix: "is_digit c \<Longrightarrow> radix_of_prefix c = 0"
  by (auto simp: is_digit_iff radix_of_prefix_def)

lemma is_digit_not_letter:
  "is_digit c \<Longrightarrow> c \<noteq> CHR ''x'' \<and> c \<noteq> CHR ''X'' \<and> c \<noteq> CHR ''I'' \<and> c \<noteq> CHR ''.'' \<and> c \<noteq> CHR ''e'' \<and> c \<noteq> CHR ''E''"
  by (auto simp: is_digit_iff)

lemma radix_val_snoc:
  "radix_val b (s @ [c]) = b * radix_val b s + (case digit_of c of None \<Rightarrow> 0 | Some d \<Rightarrow> d)"
  by (simp add: radix_val_def)

lemma digit_of_char_of: "d < 10 \<Longrightarrow> digit_of (char_of (48 + d :: nat)) = Some d"
  by (simp add: digit_of_def Let_def)

lemma is_digit_char_of: "d < 10 \<Longrightarrow> is_digit (char_of (48 + d :: nat))"
  by (simp add: is_digit_def is_radix_digit_def digit_of_char_of)

lemma show_nat_not_Nil: "show_nat n \<noteq> []"
  by (subst show_nat.simps) simp

lemma show_nat_digits: "list_all is_digit (show_nat n)"
proof (induction n rule: show_nat.induct)
  case (1 n)
  show ?case
  proof (cases "n < 10")
    case True
    then show ?thesis by (subst show_nat.simps) (simp add: is_digit_char_of)
  next
    case False
    then have "list_all is_digit (show_nat (n div 10))" using 1 by simp
    moreover have "is_digit (char_of (48 + n mod 10))" by (simp add: is_digit_char_of)
    ultimately show ?thesis using False by (subst show_nat.simps) simp
  qed
qed

lemma radix_val_show_nat: "radix_val 10 (show_nat n) = n"
proof (induction n rule: show_nat.induct)
  case (1 n)
  show ?case
  proof (cases "n < 10")
    case True
    then show ?thesis
      by (subst show_nat.simps) (simp add: radix_val_def digit_of_char_of)
  next
    case False
    then have "radix_val 10 (show_nat (n div 10)) = n div 10" using 1 by simp
    then show ?thesis using False
      by (subst show_nat.simps) (simp add: radix_val_snoc digit_of_char_of)
  qed
qed

lemma all_digits_show_nat: "all_digits (show_nat n)"
  by (simp add: all_digits_def show_nat_not_Nil show_nat_digits)

lemma all_digits_hd: "all_digits s \<Longrightarrow> \<exists>c r. s = c # r \<and> is_digit c \<and> list_all is_digit r"
  by (cases s) (auto simp: all_digits_def)

lemma all_digits_takeWhile: "all_digits s \<Longrightarrow> takeWhile is_digit s = s \<and> dropWhile is_digit s = []"
  by (auto simp: all_digits_def list_all_iff takeWhile_eq_all_conv dropWhile_eq_Nil_conv)

lemma all_digits_trim_start: "all_digits s \<Longrightarrow> trim_start s = s"
  by (auto simp: trim_start_def dest!: all_digits_hd dest: is_digit_not_ws)

lemma all_digits_split_sign: "all_digits s \<Longrightarrow> split_sign s = (False, s)"
  by (auto simp: split_sign_def dest!: all_digits_hd dest: is_digit_not_sign)

lemma parseInt_digits:
  assumes "all_digits s"
  shows "parseInt s = Fin (of_nat (radix_val 10 s))"
proof -
  obtain c r where s: "s = c # r" "is_digit c" "list_all is_digit r"
    using all_digits_hd [OF assms] by blast
  have nohex: "(case s of [] \<Rightarrow> False | [c0] \<Rightarrow> False
                 | c0 # x # r \<Rightarrow> c0 = CHR ''0'' \<and> (x = CHR ''x'' \<or> x = CHR ''X'')) = False"
    using s by (cases r) (auto dest: is_digit_not_letter)
  have tw: "takeWhile (is_radix_digit 10) s = s"
    using all_digits_takeWhile [OF assms] by (simp add: is_digit_def [abs_def])
  have ne: "s \<noteq> []" using s by simp
  show ?thesis
    unfolding parseInt_def all_digits_trim_start [OF assms] all_digits_split_sign [OF assms]
    by (simp add: nohex tw ne Let_def)
qed

lemma parseInt_show_nat: "parseInt (show_nat n) = Fin (of_nat n)"
  by (simp add: parseInt_digits all_digits_show_nat radix_val_show_nat)

lemma all_digits_trim: "all_digits s \<Longrightarrow> trim s = s"
proof -
  assume a: "all_digits s"
  then have d: "list_all is_digit s" and ne: "s \<noteq> []" by (simp_all add: all_digits_def)
  have 1: "dropWhile is_ws s = s"
    using all_digits_trim_start [OF a] by (simp add: trim_start_def)
  have "is_digit (last s)" using d ne by (simp add: list_all_iff)
  then have "\<not> is_ws (hd (rev s))" using ne by (simp add: hd_rev is_digit_not_ws)
  then have 2: "dropWhile is_ws (rev s) = rev s"
    using ne by (cases "rev s") auto
  show ?thesis by (simp add: trim_def 1 2)
qed

lemma all_digits_non_decimal: "all_digits s \<Longrightarrow> non_decimal s = None"
proof -
  assume a: "all_digits s"
  then have d: "list_all is_digit s" by (simp add: all_digits_def)
  show ?thesis
  proof (cases s)
    case Nil
    then show ?thesis by (simp add: non_decimal_def)
  next
    case (Cons c r)
    then show ?thesis using d
      by (cases r) (auto simp: non_decimal_def is_digit_not_prefix)
  qed
qed

lemma all_digits_unsigned_decimal:
  "all_digits s \<Longrightarrow> str_unsigned_decimal s = Some (of_nat (radix_val 10 s))"
proof -
  assume a: "all_digits s"
  then have ne: "s \<noteq> []" by (simp add: all_digits_def)
  have v: "decimal_value s [] 0 = of_nat (radix_val 10 s)"
    by (simp add: decimal_value_def pow10_def radix_val_def)
  have tw: "takeWhile is_digit s = s" and dw: "dropWhile is_digit s = []"
    using all_digits_takeWhile [OF a] by simp_all
  show ?thesis
    unfolding str_unsigned_decimal_def tw dw by (simp add: ne v)
qed

lemma string_to_number_digits:
  assumes "all_digits s"
  shows "string_to_number s = Fin (of_nat (radix_val 10 s))"
proof -
  obtain c r where s: "s = c # r" "is_digit c"
    using all_digits_hd [OF assms] by blast
  have inf: "s \<noteq> ''Infinity''" using s by (auto dest: is_digit_not_letter)
  have ne: "s \<noteq> []" using s by simp
  show ?thesis
    unfolding string_to_number_def all_digits_trim [OF assms]
    by (simp add: ne all_digits_non_decimal [OF assms] str_decimal_def
          all_digits_split_sign [OF assms] inf all_digits_unsigned_decimal [OF assms])
qed

lemma all_digits_pg_trim:
  "all_digits s \<Longrightarrow> rev (dropWhile is_pg_space (rev (dropWhile is_pg_space s))) = s"
proof -
  assume a: "all_digits s"
  then have d: "list_all is_digit s" and ne: "s \<noteq> []" by (simp_all add: all_digits_def)
  have sp: "\<And>c. is_digit c \<Longrightarrow> \<not> is_pg_space c"
    by (auto simp: is_pg_space_def is_digit_iff)
  obtain c r where s: "s = c # r" "is_digit c" using all_digits_hd [OF a] by blast
  then have 1: "dropWhile is_pg_space s = s" by (simp add: sp)
  have "is_digit (last s)" using d ne by (simp add: list_all_iff)
  then have "\<not> is_pg_space (hd (rev s))" using ne by (simp add: hd_rev sp)
  then have 2: "dropWhile is_pg_space (rev s) = rev s"
    using ne by (cases "rev s") auto
  show ?thesis by (simp add: 1 2)
qed

lemma pg_int_text_digits:
  "all_digits s \<Longrightarrow> pg_int_text s = Some (int (radix_val 10 s))"
  by (simp add: pg_int_text_def all_digits_pg_trim signed_integer_def all_digits_split_sign)

subsection \<open>Pagination\<close>

lemma numeral_param_cases:
  assumes "numeral_param d v n"
  obtains "v = None" "n = d" | s where "v = Some (QStr s)" "all_digits s" "radix_val 10 s = n"
proof (cases v)
  case None
  then show ?thesis using assms that by (simp add: numeral_param_def)
next
  case (Some x)
  then show ?thesis using assms that by (cases x) (simp_all add: numeral_param_def)
qed

lemma numeral_param_number_of: "numeral_param d v n \<Longrightarrow> number_of d v = Inr (Fin (of_nat n))"
  by (erule numeral_param_cases)
     (simp_all add: number_of_def q_to_number_def q_to_string_def string_to_number_digits)

lemma numeral_param_parseInt_of: "numeral_param d v n \<Longrightarrow> parseInt_of d v = Inr (Fin (of_nat n))"
  by (erule numeral_param_cases)
     (simp_all add: parseInt_of_def q_to_string_def parseInt_digits)

lemma pg_integer_nat: "n < 2 ^ 63 \<Longrightarrow> pg_integer 64 (P_num (Fin (of_nat n))) = Some (int n)"
proof -
  assume a: "n < 2 ^ 63"
  have f: "\<lfloor>(of_nat n :: rat)\<rfloor> = int n" by simp
  have "int n < 2 ^ 63" using a by (metis of_nat_less_iff of_nat_numeral of_nat_power)
  then show ?thesis by (simp add: pg_integer_def f)
qed

lemma numeral_param_limit:
  assumes "numeral_param 10 v l" "l < 2 ^ 63"
  shows "pg_integer 64 (limit_param v) = Some (int l)"
  using assms(1)
proof (cases rule: numeral_param_cases)
  case 1
  then show ?thesis using pg_integer_nat [of 10] by (simp add: limit_param_def)
next
  case (2 s)
  have "int l < 2 ^ 63" using assms(2) by (metis of_nat_less_iff of_nat_numeral of_nat_power)
  then show ?thesis using 2
    by (simp add: limit_param_def pg_integer_def pg_int_text_digits)
qed

lemma add_search_index:
  "add_search v (c, ps, length ps + 1) = Inr (c', ps', i') \<Longrightarrow> i' = length ps' + 1"
  by (auto simp: add_search_def split: if_splits sum.splits)

lemma add_category_index:
  "add_category v (c, ps, length ps + 1) = (c', ps', i') \<Longrightarrow> i' = length ps' + 1"
  by (auto simp: add_category_def split: if_splits option.splits)

lemma add_active_index:
  "add_active v (c, ps, length ps + 1) = (c', ps', i') \<Longrightarrow> i' = length ps' + 1"
  by (auto simp: add_active_def split: option.splits)

lemma where_state_index:
  assumes "add_search s ([], [], 1) = Inr st"
      and "add_active a (add_category c st) = (conds, ps, i)"
  shows "i = length ps + 1"
proof -
  obtain c1 p1 i1 where 1: "st = (c1, p1, i1)" by (cases st)
  then have i1: "i1 = length p1 + 1" using add_search_index [of s "[]" "[]"] assms(1) by simp
  obtain c2 p2 i2 where 2: "add_category c (c1, p1, i1) = (c2, p2, i2)" by (cases "add_category c (c1, p1, i1)")
  then have i2: "i2 = length p2 + 1" using add_category_index [of c c1 p1] i1 by simp
  show ?thesis using assms(2) add_active_index [of a c2 p2] 1 2 i2 by simp
qed

lemma build_query_params:
  assumes "build_query q = Inr (sq, ps)"
      and "number_of 1 (map_of q ''page'') = Inr page"
      and "number_of 10 (map_of q ''limit'') = Inr limit"
  shows "param_at ps (limit_placeholder sq) = Some (limit_param (map_of q ''limit''))
       \<and> param_at ps (offset_placeholder sq) = Some (P_num (num_mul (num_sub page (Fin 1)) limit))"
proof -
  from assms obtain sortOrd st where
    so: "sortOrderValue (map_of q ''sort_order'') = Inr sortOrd" and
    st: "add_search (map_of q ''search'') ([], [], 1) = Inr st"
    by (auto simp: build_query_def split: sum.splits)
  obtain conds params i where ac:
    "add_active (map_of q ''is_active'') (add_category (map_of q ''category_id'') st) = (conds, params, i)"
    by (cases "add_active (map_of q ''is_active'') (add_category (map_of q ''category_id'') st)")
  have i: "i = length params + 1" using where_state_index [OF st ac] .
  from assms so st ac i show ?thesis
    by (auto simp: build_query_def param_at_def nth_append)
qed

lemma offset_value:
  "1 \<le> p \<Longrightarrow> num_mul (num_sub (Fin (of_nat p)) (Fin 1)) (Fin (of_nat l)) = Fin (of_nat ((p - 1) * l))"
  by (simp add: num_sub_def of_nat_diff)

lemma total_pages_value:
  "0 < l \<Longrightarrow> num_ceil (num_div (Fin (of_nat t)) (Fin (of_nat l))) = Fin (of_int \<lceil>(of_nat t :: rat) / of_nat l\<rceil>)"
  by simp

text \<open>
  Claim C6. Let \<^verbatim>\<open>page\<close> and \<^verbatim>\<open>limit\<close> be decimal numerals (or absent, with their
  defaults 1 and 10) of \<open>p \<ge> 1\<close> and \<open>l > 0\<close>, within the integers a JavaScript number
  holds exactly, and let the request be one whose query is built and whose \<^verbatim>\<open>WHERE\<close>
  clause the server evaluates. Then the response is a 200 whose rows are at most \<open>l\<close>,
  namely the rows \<open>(p - 1) * l\<close> to \<open>p * l - 1\<close> of the ordered selection, and whose
  metadata are: \<^verbatim>\<open>total_records\<close> the count of the selection, \<^verbatim>\<open>total_pages\<close> the
  ceiling of that count divided by \<open>l\<close>, \<^verbatim>\<open>current_page\<close> equal to \<open>p\<close>,
  \<^verbatim>\<open>has_next\<close> true exactly when \<open>p\<close> is below \<^verbatim>\<open>total_pages\<close> and \<^verbatim>\<open>has_prev\<close> true
  exactly when \<open>p\<close> is above 1.
\<close>

theorem get_products_pagination:
  assumes page: "numeral_param 1 (map_of q ''page'') p" "1 \<le> p"
      and limit: "numeral_param 10 (map_of q ''limit'') l" "0 < l"
      and safe: "p * l < 2 ^ 53"
      and built: "build_query q = Inr (sq, ps)"
      and rows: "eval_where eng (where_clause sq) ps = Inr selected"
      and cnt: "eval_where eng (where_clause sq) (take (length ps - 2) ps) = Inr counted"
  shows "get_products node_env eng q db =
           \<lparr>status = 200,
            body = JObj
              [(''success'', JBool True),
               (''data'', JArr (map Product_row
                   (take l (drop ((p - 1) * l)
                      (order_by eng (order_column sq) (order_direction sq)
                         (filter selected (products db))))))),
               (''pagination'', JObj
                  [(''current_page'', JNum (Fin (of_nat p))),
                   (''total_pages'', JNum (Fin (of_int
                       \<lceil>(of_nat (length (filter counted (products db))) :: rat) / of_nat l\<rceil>))),
                   (''total_records'', JNum (Fin (of_nat (length (filter counted (products db)))))),
                   (''limit'', JNum (Fin (of_nat l))),
                   (''has_next'', JBool (int p <
                       \<lceil>(of_nat (length (filter counted (products db))) :: rat) / of_nat l\<rceil>)),
                   (''has_prev'', JBool (1 < p))])]\<rparr>
       \<and> length (take l (drop ((p - 1) * l)
                      (order_by eng (order_column sq) (order_direction sq)
                         (filter selected (products db))))) \<le> l"
proof -
  have np: "number_of 1 (map_of q ''page'') = Inr (Fin (of_nat p))"
    using page(1) by (rule numeral_param_number_of)
  have nl: "number_of 10 (map_of q ''limit'') = Inr (Fin (of_nat l))"
    using limit(1) by (rule numeral_param_number_of)
  have ip: "parseInt_of 1 (map_of q ''page'') = Inr (Fin (of_nat p))"
    using page(1) by (rule numeral_param_parseInt_of)
  have il: "parseInt_of 10 (map_of q ''limit'') = Inr (Fin (of_nat l))"
    using limit(1) by (rule numeral_param_parseInt_of)
  have big: "(2::nat) ^ 53 < 2 ^ 63" by simp
  have "l \<le> p * l" using page(2) by (cases p) simp_all
  then have l63: "l < 2 ^ 63" using safe big by linarith
  have "(p - 1) * l \<le> p * l" by simp
  then have o63: "(p - 1) * l < 2 ^ 63" using safe big by linarith
  have pl: "pg_integer 64 (limit_param (map_of q ''limit'')) = Some (int l)"
    using limit(1) l63 by (rule numeral_param_limit)
  have po: "pg_integer 64 (P_num (Fin (of_nat ((p - 1) * l)))) = Some (int ((p - 1) * l))"
    using o63 by (rule pg_integer_nat)
  have params: "param_at ps (limit_placeholder sq) = Some (limit_param (map_of q ''limit''))"
               "param_at ps (offset_placeholder sq) = Some (P_num (Fin (of_nat ((p - 1) * l))))"
    using build_query_params [OF built np nl] unfolding offset_value [OF page(2)] by blast+
  have sel: "select_products eng sq ps db =
               Inr (take l (drop ((p - 1) * l)
                      (order_by eng (order_column sq) (order_direction sq)
                         (filter selected (products db)))))"
    unfolding select_products_def rows params Option.bind_lunit pl po by (simp del: of_nat_mult)
  have count: "count_products eng (where_clause sq) (take (length ps - 2) ps) db
                 = Inr (show_nat (length (filter counted (products db))))"
    by (simp add: count_products_def cnt)
  have lt: "num_lt (Fin (of_nat p))
              (Fin (of_int \<lceil>(of_nat (length (filter counted (products db))) :: rat) / of_nat l\<rceil>))
            = (int p < \<lceil>(of_nat (length (filter counted (products db))) :: rat) / of_nat l\<rceil>)"
    by (simp add: of_nat_less_of_int_iff)
  have gt: "num_gt (Fin (of_nat p)) (Fin 1) = (1 < p)"
    by (simp add: num_gt_def)
  have meta: "pagination q (Fin (of_nat (length (filter counted (products db))))) =
                Inr (JObj
                  [(''current_page'', JNum (Fin (of_nat p))),
                   (''total_pages'', JNum (Fin (of_int
                       \<lceil>(of_nat (length (filter counted (products db))) :: rat) / of_nat l\<rceil>))),
                   (''total_records'', JNum (Fin (of_nat (length (filter counted (products db)))))),
                   (''limit'', JNum (Fin (of_nat l))),
                   (''has_next'', JBool (int p <
                       \<lceil>(of_nat (length (filter counted (products db))) :: rat) / of_nat l\<rceil>)),
                   (''has_prev'', JBool (1 < p))])"
    unfolding pagination_def np nl ip il Let_def
    by (simp add: total_pages_value [OF limit(2)] lt gt
          del: num_ceil.simps num_div.simps num_lt.simps)
  have "get_products node_env eng q db =
           \<lparr>status = 200,
            body = JObj
              [(''success'', JBool True),
               (''data'', JArr (map Product_row
                   (take l (drop ((p - 1) * l)
                      (order_by eng (order_column sq) (order_direction sq)
                         (filter selected (products db))))))),
               (''pagination'', JObj
                  [(''current_page'', JNum (Fin (of_nat p))),
                   (''total_pages'', JNum (Fin (of_int
                       \<lceil>(of_nat (length (filter counted (products db))) :: rat) / of_nat l\<rceil>))),
                   (''total_records'', JNum (Fin (of_nat (length (filter counted (products db)))))),
                   (''limit'', JNum (Fin (of_nat l))),
                   (''has_next'', JBool (int p <
                       \<lceil>(of_nat (length (filter counted (products db))) :: rat) / of_nat l\<rceil>)),
                   (''has_prev'', JBool (1 < p))])]\<rparr>"
    unfolding get_products_def built
    by (simp add: sel count parseInt_show_nat meta json_def)
  then show ?thesis by simp
qed

theorem get_products_pagination_witness:
  "get_products None
     \<lparr>eval_where = (\<lambda>clause params. Inr (\<lambda>p. True)), order_by = (\<lambda>col dir rows. rows)\<rparr>
     [(''page'', QStr ''2''), (''limit'', QStr ''2'')]
     \<lparr>retail = [], orders = [],
      products = [\<lparr>p_product_id = 1, stock_code = ''71053'', description = ''METAL LANTERN'',
                   category_id = None, p_unit_price = Some 4, stock_quantity = Some 8, is_active = Some True\<rparr>,
                  \<lparr>p_product_id = 2, stock_code = ''84029E'', description = ''WOOLLY HOTTIE'',
                   category_id = None, p_unit_price = Some 4, stock_quantity = Some 6, is_active = Some True\<rparr>,
                  \<lparr>p_product_id = 3, stock_code = ''85123A'', description = ''HEART T-LIGHT HOLDER'',
                   category_id = None, p_unit_price = Some 3, stock_quantity = Some 20, is_active = Some True\<rparr>],
      order_items = [], inventory_movements = []\<rparr>
   = \<lparr>status = 200,
      body = JObj
        [(''success'', JBool True),
         (''data'', JArr [Product_row
            \<lparr>p_product_id = 3, stock_code = ''85123A'', description = ''HEART T-LIGHT HOLDER'',
             category_id = None, p_unit_price = Some 3, stock_quantity = Some 20, is_active = Some True\<rparr>]),
         (''pagination'', JObj
            [(''current_page'', JNum (Fin 2)),
             (''total_pages'', JNum (Fin 2)),
             (''total_records'', JNum (Fin 3)),
             (''limit'', JNum (Fin 2)),
             (''has_next'', JBool False),
             (''has_prev'', JBool True)])]\<rparr>"
proof -
  have d: "all_digits ''2''" by code_simp
  have v: "radix_val 10 ''2'' = 2" by code_simp
  have p: "numeral_param 1 (map_of [(''page'', QStr ''2''), (''limit'', QStr ''2'')] ''page'') 2"
    by (simp add: numeral_param_def d v)
  have l: "numeral_param 10 (map_of [(''page'', QStr ''2''), (''limit'', QStr ''2'')] ''limit'') 2"
    by (simp add: numeral_param_def d v)
  have b: "build_query [(''page'', QStr ''2''), (''limit'', QStr ''2'')]
             = Inr (\<lparr>where_clause = [], order_column = ''stock_code'', order_direction = ''ASC'',
                     limit_placeholder = 1, offset_placeholder = 2\<rparr>,
                    [P_query (QStr ''2''), P_num (Fin 2)])"
    using numeral_param_number_of [OF p] numeral_param_number_of [OF l]
    by (simp add: build_query_def sortColumn_def sortOrderValue_def dflt_def array_includes_def
        validSortColumns_def validSortOrders_def toUpperCase_def add_search_def add_category_def
        add_active_def whereClause_def limit_param_def num_sub_def)
  have c: "\<lceil>(3::rat) / 2\<rceil> = 2" by (simp add: ceiling_eq_iff)
  show ?thesis
    using get_products_pagination [OF p _ l _ _ b, of "\<lparr>eval_where = (\<lambda>clause params. Inr (\<lambda>p. True)), order_by = (\<lambda>col dir rows. rows)\<rparr>" "\<lambda>p. True" "\<lambda>p. True" None]
    by (simp add: c)
qed

subsection \<open>Deleting a product\<close>

lemma filter_key_distinct:
  "distinct (map f xs) \<Longrightarrow> x \<in> set xs \<Longrightarrow> filter (\<lambda>y. f y = f x) xs = [x]"
proof (induction xs)
  case Nil
  then show ?case by simp
next
  case (Cons a xs)
  show ?case
  proof (cases "a = x")
    case True
    have "\<forall>y \<in> set xs. f y \<noteq> f x" using Cons.prems(1) True by (auto simp: image_iff)
    then have "filter (\<lambda>y. f y = f x) xs = []" by (simp add: filter_empty_conv)
    then show ?thesis using True by simp
  next
    case False
    then have x: "x \<in> set xs" using Cons.prems(2) by simp
    then have "f a \<noteq> f x" using Cons.prems(1) by (auto simp: image_iff)
    then show ?thesis using Cons.IH x Cons.prems(1) by simp
  qed
qed

lemma products_where_subset:
  "products_where field v db = Inr ps \<Longrightarrow> set ps \<subseteq> set (products db)"
  by (auto simp: products_where_def split: if_splits option.splits)

lemma related_records_positive:
  "num_gt (num_add (Fin (of_nat (a * max 1 b))) (Fin (of_nat (b * max 1 a)))) (Fin 0)
     \<longleftrightarrow> (a, b) \<noteq> (0, 0)"
proof -
  have "num_gt (num_add (Fin (of_nat (a * max 1 b))) (Fin (of_nat (b * max 1 a)))) (Fin 0)
          \<longleftrightarrow> (0 :: rat) < of_nat (a * max 1 b + b * max 1 a)"
    by (simp add: num_gt_def del: of_nat_mult of_nat_add) (simp add: of_nat_add [symmetric] del: of_nat_add of_nat_mult)
  also have "\<dots> \<longleftrightarrow> 0 < a * max 1 b + b * max 1 a"
    by (simp del: of_nat_mult of_nat_add)
  also have "\<dots> \<longleftrightarrow> (a, b) \<noteq> (0, 0)"
    by (auto simp: max_def)
  finally show ?thesis .
qed

lemma dependents_none:
  "dependents p db = (0, 0) \<longleftrightarrow>
     (\<forall>oi \<in> set (order_items db). oi_product_id oi \<noteq> p_product_id p)
   \<and> (\<forall>im \<in> set (inventory_movements db). im_product_id im \<noteq> p_product_id p)"
  by (simp add: dependents_def filter_empty_conv)

text \<open>
  Claim C7. Let the identifier select the product \<open>p\<close>, in a table where
  \<^verbatim>\<open>product_id\<close> is a key. When no row of \<^verbatim>\<open>order_items\<close> and no row of
  \<^verbatim>\<open>inventory_movements\<close> carries the \<^verbatim>\<open>product_id\<close> of \<open>p\<close>, the request succeeds,
  the response carries the row \<open>p\<close> as \<^verbatim>\<open>deleted_product\<close> and \<open>p\<close> is no longer in
  the table. When a row of one of the two tables carries it, the response is a 409 and
  the database, the row \<open>p\<close> included, is as it was.
\<close>

theorem delete_product_dependents:
  assumes found: "find_product ident db = Inr (p # rest)"
      and pk: "distinct (map p_product_id (products db))"
  shows "((\<forall>oi \<in> set (order_items db). oi_product_id oi \<noteq> p_product_id p)
          \<and> (\<forall>im \<in> set (inventory_movements db). im_product_id im \<noteq> p_product_id p) \<longrightarrow>
            delete_product node_env ident db =
              (\<lparr>status = 200,
                body = JObj [(''success'', JBool True),
                             (''message'', JStr ''Product deleted successfully''),
                             (''deleted_product'', Product_row p)]\<rparr>,
               db\<lparr>products := filter (\<lambda>x. p_product_id x \<noteq> p_product_id p) (products db)\<rparr>)
          \<and> p \<notin> set (filter (\<lambda>x. p_product_id x \<noteq> p_product_id p) (products db)))
       \<and> ((\<exists>oi \<in> set (order_items db). oi_product_id oi = p_product_id p)
          \<or> (\<exists>im \<in> set (inventory_movements db). im_product_id im = p_product_id p) \<longrightarrow>
            status (fst (delete_product node_env ident db)) = 409
          \<and> snd (delete_product node_env ident db) = db
          \<and> p \<in> set (products db))"
proof -
  have pw: "products_where (searchField ident) (searchValue ident) db = Inr (p # rest)"
    using found by (simp add: find_product_def)
  have mem: "p \<in> set (products db)"
    using products_where_subset [OF pw] by simp
  obtain a b where ab: "dependents p db = (a, b)" by (cases "dependents p db")
  have chk: "delete_check (searchField ident) (searchValue ident) db
               = Inr (check_row_of db p # map (check_row_of db) rest)"
    by (simp add: delete_check_def pw)
  have row: "check_row_of db p =
               \<lparr>cr_product_id = p_product_id p, cr_stock_code = stock_code p,
                order_items_count = show_nat (a * max 1 b),
                inventory_movements_count = show_nat (b * max 1 a)\<rparr>"
    by (simp add: check_row_of_def ab)
  have del: "delete_from_products (p_product_id p) db =
               ([p], db\<lparr>products := filter (\<lambda>x. p_product_id x \<noteq> p_product_id p) (products db)\<rparr>)"
    by (simp add: delete_from_products_def filter_key_distinct [OF pk mem])
  show ?thesis
  proof (intro conjI impI)
    assume "(\<forall>oi \<in> set (order_items db). oi_product_id oi \<noteq> p_product_id p)
          \<and> (\<forall>im \<in> set (inventory_movements db). im_product_id im \<noteq> p_product_id p)"
    then have z: "dependents p db = (0, 0)"
      by (simp only: dependents_none)
    then have "\<not> num_gt (num_add (Fin (of_nat (a * max 1 b))) (Fin (of_nat (b * max 1 a)))) (Fin 0)"
      using ab by (simp only: related_records_positive) simp
    then show "delete_product node_env ident db =
              (\<lparr>status = 200,
                body = JObj [(''success'', JBool True),
                             (''message'', JStr ''Product deleted successfully''),
                             (''deleted_product'', Product_row p)]\<rparr>,
               db\<lparr>products := filter (\<lambda>x. p_product_id x \<noteq> p_product_id p) (products db)\<rparr>)"
      unfolding delete_product_def chk row
      by (simp add: parseInt_show_nat del json_def Let_def del: num_add.simps of_nat_mult)
    show "p \<notin> set (filter (\<lambda>x. p_product_id x \<noteq> p_product_id p) (products db))"
      by simp
  next
    assume "(\<exists>oi \<in> set (order_items db). oi_product_id oi = p_product_id p)
          \<or> (\<exists>im \<in> set (inventory_movements db). im_product_id im = p_product_id p)"
    then have nz: "dependents p db \<noteq> (0, 0)"
      by (simp only: dependents_none) blast
    then have gt: "num_gt (num_add (Fin (of_nat (a * max 1 b))) (Fin (of_nat (b * max 1 a)))) (Fin 0)"
      using ab by (simp only: related_records_positive) simp
    show "status (fst (delete_product node_env ident db)) = 409"
      unfolding delete_product_def chk row
      using gt by (simp add: parseInt_show_nat status_json_def Let_def del: num_add.simps of_nat_mult)
    show "snd (delete_product node_env ident db) = db"
      unfolding delete_product_def chk row
      using gt by (simp add: parseInt_show_nat status_json_def Let_def del: num_add.simps of_nat_mult)
    show "p \<in> set (products db)" by (rule mem)
  qed
qed

theorem delete_product_dependents_witness:
  "delete_product None ''1''
     \<lparr>retail = [], orders = [],
      products = [\<lparr>p_product_id = 1, stock_code = ''85123A'', description = ''HEART T-LIGHT HOLDER'',
                   category_id = None, p_unit_price = Some 3, stock_quantity = Some 20, is_active = Some True\<rparr>,
                  \<lparr>p_product_id = 2, stock_code = ''METAL'', description = ''METAL LANTERN'',
                   category_id = None, p_unit_price = Some 4, stock_quantity = Some 8, is_active = Some True\<rparr>,
                  \<lparr>p_product_id = 3, stock_code = ''22752'', description = ''SET 7 BABUSHKA NESTING BOXES'',
                   category_id = None, p_unit_price = Some 8, stock_quantity = Some 2, is_active = Some True\<rparr>],
      order_items = [\<lparr>oi_id = 1, oi_product_id = 2\<rparr>],
      inventory_movements = [\<lparr>im_id = 1, im_product_id = 3\<rparr>]\<rparr>
   = (\<lparr>status = 200,
       body = JObj [(''success'', JBool True),
                    (''message'', JStr ''Product deleted successfully''),
                    (''deleted_product'', Product_row
                       \<lparr>p_product_id = 1, stock_code = ''85123A'', description = ''HEART T-LIGHT HOLDER'',
                   category_id = None, p_unit_price = Some 3, stock_quantity = Some 20, is_active = Some True\<rparr>)]\<rparr>,
      \<lparr>retail = [], orders = [],
      products = [\<lparr>p_product_id = 2, stock_code = ''METAL'', description = ''METAL LANTERN'',
                   category_id = None, p_unit_price = Some 4, stock_quantity = Some 8, is_active = Some True\<rparr>,
                  \<lparr>p_product_id = 3, stock_code = ''22752'', description = ''SET 7 BABUSHKA NESTING BOXES'',
                   category_id = None, p_unit_price = Some 8, stock_quantity = Some 2, is_active = Some True\<rparr>],
      order_items = [\<lparr>oi_id = 1, oi_product_id = 2\<rparr>],
      inventory_movements = [\<lparr>im_id = 1, im_product_id = 3\<rparr>]\<rparr>)
   \<and> status (fst (delete_product None ''METAL''
     \<lparr>retail = [], orders = [],
      products = [\<lparr>p_product_id = 1, stock_code = ''85123A'', description = ''HEART T-LIGHT HOLDER'',
                   category_id = None, p_unit_price = Some 3, stock_quantity = Some 20, is_active = Some True\<rparr>,
                  \<lparr>p_product_id = 2, stock_code = ''METAL'', description = ''METAL LANTERN'',
                   category_id = None, p_unit_price = Some 4, stock_quantity = Some 8, is_active = Some True\<rparr>,
                  \<lparr>p_product_id = 3, stock_code = ''22752'', description = ''SET 7 BABUSHKA NESTING BOXES'',
                   category_id = None, p_unit_price = Some 8, stock_quantity = Some 2, is_active = Some True\<rparr>],
      order_items = [\<lparr>oi_id = 1, oi_product_id = 2\<rparr>],
      inventory_movements = [\<lparr>im_id = 1, im_product_id = 3\<rparr>]\<rparr>)) = 409
   \<and> snd (delete_product None ''METAL''
     \<lparr>retail = [], orders = [],
      products = [\<lparr>p_product_id = 1, stock_code = ''85123A'', description = ''HEART T-LIGHT HOLDER'',
                   category_id = None, p_unit_price = Some 3, stock_quantity = Some 20, is_active = Some True\<rparr>,
                  \<lparr>p_product_id = 2, stock_code = ''METAL'', description = ''METAL LANTERN'',
                   category_id = None, p_unit_price = Some 4, stock_quantity = Some 8, is_active = Some True\<rparr>,
                  \<lparr>p_product_id = 3, stock_code = ''22752'', description = ''SET 7 BABUSHKA NESTING BOXES'',
                   category_id = None, p_unit_price = Some 8, stock_quantity = Some 2, is_active = Some True\<rparr>],
      order_items = [\<lparr>oi_id = 1, oi_product_id = 2\<rparr>],
      inventory_movements = [\<lparr>im_id = 1, im_product_id = 3\<rparr>]\<rparr>)
     = \<lparr>retail = [], orders = [],
      products = [\<lparr>p_product_id = 1, stock_code = ''85123A'', description = ''HEART T-LIGHT HOLDER'',
                   category_id = None, p_unit_price = Some 3, stock_quantity = Some 20, is_active = Some True\<rparr>,
                  \<lparr>p_product_id = 2, stock_code = ''METAL'', description = ''METAL LANTERN'',
                   category_id = None, p_unit_price = Some 4, stock_quantity = Some 8, is_active = Some True\<rparr>,
                  \<lparr>p_product_id = 3, stock_code = ''22752'', description = ''SET 7 BABUSHKA NESTING BOXES'',
                   category_id = None, p_unit_price = Some 8, stock_quantity = Some 2, is_active = Some True\<rparr>],
      order_items = [\<lparr>oi_id = 1, oi_product_id = 2\<rparr>],
      inventory_movements = [\<lparr>im_id = 1, im_product_id = 3\<rparr>]\<rparr>
   \<and> status (fst (delete_product None ''3''
     \<lparr>retail = [], orders = [],
      products = [\<lparr>p_product_id = 1, stock_code = ''85123A'', description = ''HEART T-LIGHT HOLDER'',
                   category_id = None, p_unit_price = Some 3, stock_quantity = Some 20, is_active = Some True\<rparr>,
                  \<lparr>p_product_id = 2, stock_code = ''METAL'', description = ''METAL LANTERN'',
                   category_id = None, p_unit_price = Some 4, stock_quantity = Some 8, is_active = Some True\<rparr>,
                  \<lparr>p_product_id = 3, stock_code = ''22752'', description = ''SET 7 BABUSHKA NESTING BOXES'',
                   category_id = None, p_unit_price = Some 8, stock_quantity = Some 2, is_active = Some True\<rparr>],
      order_items = [\<lparr>oi_id = 1, oi_product_id = 2\<rparr>],
      inventory_movements = [\<lparr>im_id = 1, im_product_id = 3\<rparr>]\<rparr>)) = 409
   \<and> snd (delete_product None ''3''
     \<lparr>retail = [], orders = [],
      products = [\<lparr>p_product_id = 1, stock_code = ''85123A'', description = ''HEART T-LIGHT HOLDER'',
                   category_id = None, p_unit_price = Some 3, stock_quantity = Some 20, is_active = Some True\<rparr>,
                  \<lparr>p_product_id = 2, stock_code = ''METAL'', description = ''METAL LANTERN'',
                   category_id = None, p_unit_price = Some 4, stock_quantity = Some 8, is_active = Some True\<rparr>,
                  \<lparr>p_product_id = 3, stock_code = ''22752'', description = ''SET 7 BABUSHKA NESTING BOXES'',
                   category_id = None, p_unit_price = Some 8, stock_quantity = Some 2, is_active = Some True\<rparr>],
      order_items = [\<lparr>oi_id = 1, oi_product_id = 2\<rparr>],
      inventory_movements = [\<lparr>im_id = 1, im_product_id = 3\<rparr>]\<rparr>)
     = \<lparr>retail = [], orders = [],
      products = [\<lparr>p_product_id = 1, stock_code = ''85123A'', description = ''HEART T-LIGHT HOLDER'',
                   category_id = None, p_unit_price = Some 3, stock_quantity = Some 20, is_active = Some True\<rparr>,
                  \<lparr>p_product_id = 2, stock_code = ''METAL'', description = ''METAL LANTERN'',
                   category_id = None, p_unit_price = Some 4, stock_quantity = Some 8, is_active = Some True\<rparr>,
                  \<lparr>p_product_id = 3, stock_code = ''22752'', description = ''SET 7 BABUSHKA NESTING BOXES'',
                   category_id = None, p_unit_price = Some 8, stock_quantity = Some 2, is_active = Some True\<rparr>],
      order_items = [\<lparr>oi_id = 1, oi_product_id = 2\<rparr>],
      inventory_movements = [\<lparr>im_id = 1, im_product_id = 3\<rparr>]\<rparr>"
proof -
  have n1: "isNumeric ''1''" by code_simp
  have v1: "parseInt ''1'' = Fin 1" by code_simp
  have n2: "\<not> isNumeric ''METAL''" by code_simp
  have n3: "isNumeric ''3''" by code_simp
  have v3: "parseInt ''3'' = Fin 3" by code_simp
  have f1: "find_product ''1''
     \<lparr>retail = [], orders = [],
      products = [\<lparr>p_product_id = 1, stock_code = ''85123A'', description = ''HEART T-LIGHT HOLDER'',
                   category_id = None, p_unit_price = Some 3, stock_quantity = Some 20, is_active = Some True\<rparr>,
                  \<lparr>p_product_id = 2, stock_code = ''METAL'', description = ''METAL LANTERN'',
                   category_id = None, p_unit_price = Some 4, stock_quantity = Some 8, is_active = Some True\<rparr>,
                  \<lparr>p_product_id = 3, stock_code = ''22752'', description = ''SET 7 BABUSHKA NESTING BOXES'',
                   category_id = None, p_unit_price = Some 8, stock_quantity = Some 2, is_active = Some True\<rparr>],
      order_items = [\<lparr>oi_id = 1, oi_product_id = 2\<rparr>],
      inventory_movements = [\<lparr>im_id = 1, im_product_id = 3\<rparr>]\<rparr>
     = Inr [\<lparr>p_product_id = 1, stock_code = ''85123A'', description = ''HEART T-LIGHT HOLDER'',
                   category_id = None, p_unit_price = Some 3, stock_quantity = Some 20, is_active = Some True\<rparr>]"
    by (simp add: find_product_def searchField_def searchValue_def products_where_def n1 v1 pg_integer_def)
  have f2: "find_product ''METAL''
     \<lparr>retail = [], orders = [],
      products = [\<lparr>p_product_id = 1, stock_code = ''85123A'', description = ''HEART T-LIGHT HOLDER'',
                   category_id = None, p_unit_price = Some 3, stock_quantity = Some 20, is_active = Some True\<rparr>,
                  \<lparr>p_product_id = 2, stock_code = ''METAL'', description = ''METAL LANTERN'',
                   category_id = None, p_unit_price = Some 4, stock_quantity = Some 8, is_active = Some True\<rparr>,
                  \<lparr>p_product_id = 3, stock_code = ''22752'', description = ''SET 7 BABUSHKA NESTING BOXES'',
                   category_id = None, p_unit_price = Some 8, stock_quantity = Some 2, is_active = Some True\<rparr>],
      order_items = [\<lparr>oi_id = 1, oi_product_id = 2\<rparr>],
      inventory_movements = [\<lparr>im_id = 1, im_product_id = 3\<rparr>]\<rparr>
     = Inr [\<lparr>p_product_id = 2, stock_code = ''METAL'', description = ''METAL LANTERN'',
                   category_id = None, p_unit_price = Some 4, stock_quantity = Some 8, is_active = Some True\<rparr>]"
    by (simp add: find_product_def searchField_def searchValue_def products_where_def n2 pg_text_def)
  have f3: "find_product ''3''
     \<lparr>retail = [], orders = [],
      products = [\<lparr>p_product_id = 1, stock_code = ''85123A'', description = ''HEART T-LIGHT HOLDER'',
                   category_id = None, p_unit_price = Some 3, stock_quantity = Some 20, is_active = Some True\<rparr>,
                  \<lparr>p_product_id = 2, stock_code = ''METAL'', description = ''METAL LANTERN'',
                   category_id = None, p_unit_price = Some 4, stock_quantity = Some 8, is_active = Some True\<rparr>,
                  \<lparr>p_product_id = 3, stock_code = ''22752'', description = ''SET 7 BABUSHKA NESTING BOXES'',
                   category_id = None, p_unit_price = Some 8, stock_quantity = Some 2, is_active = Some True\<rparr>],
      order_items = [\<lparr>oi_id = 1, oi_product_id = 2\<rparr>],
      inventory_movements = [\<lparr>im_id = 1, im_product_id = 3\<rparr>]\<rparr>
     = Inr [\<lparr>p_product_id = 3, stock_code = ''22752'', description = ''SET 7 BABUSHKA NESTING BOXES'',
                   category_id = None, p_unit_price = Some 8, stock_quantity = Some 2, is_active = Some True\<rparr>]"
    by (simp add: find_product_def searchField_def searchValue_def products_where_def n3 v3 pg_integer_def)
  show ?thesis
    using delete_product_dependents [OF f1, of None] delete_product_dependents [OF f2, of None]
      delete_product_dependents [OF f3, of None]
    by simp
qed

end
